theory Spec2Isabelle
  imports Complex_Main "HOL-Library.Product_Lexorder" "HOL-Library.Log_Nat"
begin

section \<open>Values of the trade journal\<close>

text \<open>
  The server (\<^verbatim>\<open>src/server/main.py\<close>) keeps four SQLite tables and exposes four tools.
  Python floats are idealised as reals: the arithmetic of the source is kept operation by
  operation, its rounding error is not.  The one exception is the risk:reward ratio of
  \<open>save_trade\<close>: its quotient is printed to two decimals, where the last bit of the
  float decides the digit, so there the binary64 operations are written out.  An optional
  parameter (\<^verbatim>\<open>float | None\<close>) is an
  \<open>option\<close>; Python's truth test on it (\<^verbatim>\<open>if take_profit:\<close>) is false for \<^verbatim>\<open>None\<close> and for
  \<^verbatim>\<open>0.0\<close>, and is written out as \<open>truthy\<close>.
\<close>

datatype side = BUY | SELL

datatype status = OPEN | CLOSED

datatype outcome = WIN | LOSS

definition truthy :: "real option \<Rightarrow> bool" where
  "truthy v = (case v of None \<Rightarrow> False | Some x \<Rightarrow> x \<noteq> 0)"

definition truthy_str :: "string option \<Rightarrow> bool" where
  "truthy_str v = (case v of None \<Rightarrow> False | Some s \<Rightarrow> s \<noteq> [])"

subsection \<open>Formatting a number to two decimals\<close>

text \<open>
  \<^verbatim>\<open>f"{ratio:.2f}"\<close> and \<^verbatim>\<open>round(x, 2)\<close> round to the nearest hundredth, ties to the even
  neighbour.
\<close>

definition round_half_even :: "real \<Rightarrow> int" where
  "round_half_even x =
     (let f = \<lfloor>x\<rfloor>; d = x - of_int f
      in if d < 1 / 2 then f
         else if 1 / 2 < d then f + 1
         else if even f then f else f + 1)"

definition round2 :: "real \<Rightarrow> real" where
  "round2 x = of_int (round_half_even (x * 100)) / 100"

definition digit_char :: "nat \<Rightarrow> char" where
  "digit_char d = ''0123456789'' ! d"

fun str_nat :: "nat \<Rightarrow> string" where
  "str_nat n = (if n < 10 then [digit_char n] else str_nat (n div 10) @ [digit_char (n mod 10)])"

declare str_nat.simps [simp del]

definition format_2f :: "real \<Rightarrow> string" where
  "format_2f x =
     (let n = nat (round_half_even (\<bar>x\<bar> * 100))
      in (if x < 0 then ''-'' else '''') @ str_nat (n div 100) @ ''.''
         @ [digit_char (n mod 100 div 10), digit_char (n mod 10)])"

subsection \<open>Binary64 arithmetic\<close>

text \<open>
  A Python float is an IEEE 754 binary64 number: a real with a 53-bit significand, or an
  infinity, or not-a-number.  An operation on finite numbers gives the exact result
  rounded to the nearest such number, ties to the even significand; from \<open>2 ^ 1024\<close> on
  the rounded result is an infinity, and below \<open>2 ^ -1022\<close> the spacing stays
  \<open>2 ^ -1074\<close>.  \<open>exponent_of x\<close> is the \<open>e\<close> with \<open>2 ^ e \<le> x < 2 ^ (e + 1)\<close>.
\<close>

datatype py_float = Finite real | PosInf | NegInf | NaN

definition pow2 :: "int \<Rightarrow> real" where
  "pow2 e = (if 0 \<le> e then 2 ^ nat e else 1 / 2 ^ nat (- e))"

definition exponent_of :: "real \<Rightarrow> int" where
  "exponent_of x = (if 1 \<le> x then bitlen \<lfloor>x\<rfloor> - 1 else - bitlen (\<lceil>1 / x\<rceil> - 1))"

definition round_to_double :: "real \<Rightarrow> real" where
  "round_to_double x =
     (if x = 0 then 0
      else (let e = max (exponent_of \<bar>x\<bar>) (- 1022); ulp = pow2 (e - 52)
            in sgn x * of_int (round_half_even (\<bar>x\<bar> / ulp)) * ulp))"

definition to_float :: "real \<Rightarrow> py_float" where
  "to_float x =
     (let r = round_to_double x
      in if pow2 1024 \<le> r then PosInf else if r \<le> - pow2 1024 then NegInf else Finite r)"

text \<open>
  Subtraction of two finite floats, \<^verbatim>\<open>abs\<close>, division, the test \<^verbatim>\<open>x > 0\<close> and
  \<^verbatim>\<open>f"{x:.2f}"\<close>.  The tool divides by a distance it has found positive; Python raises
  on a zero divisor.
\<close>

definition float_sub :: "real \<Rightarrow> real \<Rightarrow> py_float" where
  "float_sub a b = to_float (a - b)"

fun float_abs :: "py_float \<Rightarrow> py_float" where
  "float_abs (Finite r) = Finite \<bar>r\<bar>"
| "float_abs PosInf = PosInf"
| "float_abs NegInf = PosInf"
| "float_abs NaN = NaN"

fun float_div :: "py_float \<Rightarrow> py_float \<Rightarrow> py_float" where
  "float_div (Finite a) (Finite b) = to_float (a / b)"
| "float_div (Finite a) PosInf = Finite 0"
| "float_div (Finite a) NegInf = Finite 0"
| "float_div PosInf (Finite b) = (if 0 < b then PosInf else NegInf)"
| "float_div NegInf (Finite b) = (if 0 < b then NegInf else PosInf)"
| "float_div PosInf PosInf = NaN"
| "float_div PosInf NegInf = NaN"
| "float_div NegInf PosInf = NaN"
| "float_div NegInf NegInf = NaN"
| "float_div NaN b = NaN"
| "float_div a NaN = NaN"

fun float_gt_zero :: "py_float \<Rightarrow> bool" where
  "float_gt_zero (Finite r) = (0 < r)"
| "float_gt_zero PosInf = True"
| "float_gt_zero NegInf = False"
| "float_gt_zero NaN = False"

fun float_format_2f :: "py_float \<Rightarrow> string" where
  "float_format_2f (Finite r) = format_2f r"
| "float_format_2f PosInf = ''inf''"
| "float_format_2f NegInf = ''-inf''"
| "float_format_2f NaN = ''nan''"

subsection \<open>The tables\<close>

text \<open>
  One record per table row, a field per column the tools read or write; the prefixes
  \<open>tt_\<close> and \<open>tr_\<close> are the aliases the queries give \<^verbatim>\<open>trade_tracker\<close> and \<^verbatim>\<open>trade_results\<close>.
  Timestamps are seconds on the store's clock.  The message text of an alert is left out.
\<close>

record trade =
  tt_id :: int
  tt_user_id :: string
  tt_entry_price :: real
  tt_take_profit :: "real option"
  tt_stop_loss :: "real option"
  tt_lot_size :: real
  tt_balance :: real
  tt_trade_type :: side
  tt_currency_pair :: string
  tt_timeframe :: "string option"
  tt_trade_style :: "string option"
  tt_strategy :: "string option"
  tt_risk_reward_ratio :: "string option"
  tt_notes :: "string option"
  tt_timestamp :: int
  tt_status :: status

record trade_result =
  tr_id :: int
  tr_user_id :: string
  tr_trade_id :: int
  tr_result :: outcome
  tr_profit_loss :: real
  tr_notes :: "string option"
  tr_timestamp :: int

datatype risk_level = LOW | MEDIUM | HIGH | CRITICAL

record alert_row =
  rm_user_id :: string
  rm_alert_type :: string
  rm_risk_level :: risk_level
  rm_acknowledged :: bool

text \<open>
  Modelled from the spec: \<^verbatim>\<open>schema.sql\<close> is not among the sources, so the column defaults
  come from the data model of the specification: a trade identifier is store-assigned and
  monotonic (a counter per table, \<open>trade_seq\<close> and \<open>result_seq\<close>), a new trade has status
  \<open>OPEN\<close>, and a row's timestamp is the store's clock at insertion (\<open>clock\<close>).  The
  \<^verbatim>\<open>users\<close> table is keyed by \<^verbatim>\<open>user_id\<close> with a unique \<^verbatim>\<open>username\<close>, as
  \<^verbatim>\<open>migrate_add_user_id.py\<close> declares it; the password column that script also declares
  is left out, since the specification has a user created by the first trade.
\<close>

record db =
  users :: "(string \<times> string) list"
  trade_tracker :: "trade list"
  trade_results :: "trade_result list"
  risk_monitor :: "alert_row list"
  trade_seq :: int
  result_seq :: int
  clock :: int

definition empty_db :: "int \<Rightarrow> db" where
  "empty_db now = \<lparr>users = [], trade_tracker = [], trade_results = [], risk_monitor = [],
     trade_seq = 0, result_seq = 0, clock = now\<rparr>"

subsection \<open>Connections and commits\<close>

text \<open>
  Every tool opens a connection of its own (\<^verbatim>\<open>async with get_db_connection() as conn\<close>).
  Statements change the connection's working copy; \<^verbatim>\<open>conn.commit()\<close> makes the working
  copy durable; leaving the \<^verbatim>\<open>with\<close> block closes the connection, which drops what was
  not committed.  \<open>commit_log\<close> lists the states the connection made durable, oldest first.
\<close>

record conn =
  committed :: db
  working :: db
  commit_log :: "db list"

definition connect :: "db \<Rightarrow> conn" where
  "connect d = \<lparr>committed = d, working = d, commit_log = []\<rparr>"

definition commit :: "conn \<Rightarrow> conn" where
  "commit c = c\<lparr>committed := working c, commit_log := commit_log c @ [working c]\<rparr>"

definition close_conn :: "conn \<Rightarrow> db" where
  "close_conn c = committed c"

definition insert_or_ignore_user :: "string \<Rightarrow> string \<Rightarrow> conn \<Rightarrow> conn" where
  "insert_or_ignore_user user_id username c =
     (let d = working c
      in if list_ex (\<lambda>(u, n). u = user_id \<or> n = username) (users d) then c
         else c\<lparr>working := d\<lparr>users := users d @ [(user_id, username)]\<rparr>\<rparr>)"

definition insert_trade :: "(int \<Rightarrow> int \<Rightarrow> trade) \<Rightarrow> conn \<Rightarrow> int \<times> conn" where
  "insert_trade mk c =
     (let d = working c; new_id = trade_seq d + 1
      in (new_id, c\<lparr>working := d\<lparr>trade_tracker := trade_tracker d @ [mk new_id (clock d)],
                                   trade_seq := new_id\<rparr>\<rparr>))"

definition insert_result :: "(int \<Rightarrow> int \<Rightarrow> trade_result) \<Rightarrow> conn \<Rightarrow> int \<times> conn" where
  "insert_result mk c =
     (let d = working c; new_id = result_seq d + 1
      in (new_id, c\<lparr>working := d\<lparr>trade_results := trade_results d @ [mk new_id (clock d)],
                                   result_seq := new_id\<rparr>\<rparr>))"

definition update_status_closed :: "int \<Rightarrow> conn \<Rightarrow> conn" where
  "update_status_closed trade_id c =
     (let d = working c
      in c\<lparr>working := d\<lparr>trade_tracker :=
           map (\<lambda>t. if tt_id t = trade_id then t\<lparr>tt_status := CLOSED\<rparr> else t) (trade_tracker d)\<rparr>\<rparr>)"

section \<open>save_trade\<close>

text \<open>
  The tool's answer is a dictionary: the error dictionary of the lot-size check, or the
  saved trade.  The \<^verbatim>\<open>message\<close> and \<^verbatim>\<open>error\<close> strings only repeat other fields and are
  left out.
\<close>

record saved_trade =
  sv_trade_id :: int
  sv_status :: status
  sv_entry_price :: real
  sv_take_profit :: "real option"
  sv_stop_loss :: "real option"
  sv_lot_size :: real
  sv_balance :: real
  sv_trade_type :: side
  sv_currency_pair :: string
  sv_timeframe :: "string option"
  sv_trade_style :: "string option"
  sv_strategy :: "string option"
  sv_risk_reward_ratio :: "string option"
  sv_potential_profit :: "real option"
  sv_potential_loss :: "real option"
  sv_notes :: "string option"

datatype save_payload = LotSizeError real | Saved saved_trade

text \<open>
  The ratio, in binary64: the prices are the floats the tool receives, the two distances
  and their quotient are float results.
\<close>

definition risk_reward :: "real \<Rightarrow> real option \<Rightarrow> real option \<Rightarrow> side \<Rightarrow> string option" where
  "risk_reward entry_price take_profit stop_loss trade_type =
     (if truthy take_profit \<and> truthy stop_loss \<and> entry_price \<noteq> 0 then
        (let tp = the take_profit; sl = the stop_loss;
             profit_distance = (if trade_type = BUY then float_abs (float_sub tp entry_price)
                                else float_abs (float_sub entry_price tp));
             risk_distance = (if trade_type = BUY then float_abs (float_sub entry_price sl)
                              else float_abs (float_sub sl entry_price))
         in if float_gt_zero risk_distance
            then Some (''1:'' @ float_format_2f (float_div profit_distance risk_distance))
            else None)
      else None)"

definition potential_profit :: "real \<Rightarrow> real option \<Rightarrow> real \<Rightarrow> real option" where
  "potential_profit entry_price take_profit lot_size =
     (if truthy take_profit \<and> entry_price \<noteq> 0
      then Some (\<bar>the take_profit - entry_price\<bar> * (lot_size * 100)) else None)"

definition potential_loss :: "real \<Rightarrow> real option \<Rightarrow> real \<Rightarrow> real option" where
  "potential_loss entry_price stop_loss lot_size =
     (if truthy stop_loss \<and> entry_price \<noteq> 0
      then Some (\<bar>entry_price - the stop_loss\<bar> * (lot_size * 100)) else None)"

definition save_trade_conn ::
  "conn \<Rightarrow> string \<Rightarrow> real \<Rightarrow> real option \<Rightarrow> real option \<Rightarrow> real \<Rightarrow> real \<Rightarrow> side \<Rightarrow> string
   \<Rightarrow> string option \<Rightarrow> string option \<Rightarrow> string option \<Rightarrow> string option \<Rightarrow> save_payload \<times> conn" where
  "save_trade_conn c user_id entry_price take_profit stop_loss lot_size balance trade_type
     currency_pair timeframe trade_style strategy notes =
     (let risk_reward_ratio = risk_reward entry_price take_profit stop_loss trade_type;
          c1 = insert_or_ignore_user user_id user_id c;
          (trade_id, c2) = insert_trade (\<lambda>new_id now.
             \<lparr>tt_id = new_id, tt_user_id = user_id, tt_entry_price = entry_price,
              tt_take_profit = take_profit, tt_stop_loss = stop_loss, tt_lot_size = lot_size,
              tt_balance = balance, tt_trade_type = trade_type, tt_currency_pair = currency_pair,
              tt_timeframe = timeframe, tt_trade_style = trade_style, tt_strategy = strategy,
              tt_risk_reward_ratio = risk_reward_ratio, tt_notes = notes, tt_timestamp = now,
              tt_status = OPEN\<rparr>) c1;
          c3 = commit c2
      in (Saved \<lparr>sv_trade_id = trade_id, sv_status = OPEN, sv_entry_price = entry_price,
            sv_take_profit = take_profit, sv_stop_loss = stop_loss, sv_lot_size = lot_size,
            sv_balance = balance, sv_trade_type = trade_type, sv_currency_pair = currency_pair,
            sv_timeframe = timeframe, sv_trade_style = trade_style, sv_strategy = strategy,
            sv_risk_reward_ratio = risk_reward_ratio,
            sv_potential_profit = potential_profit entry_price take_profit lot_size,
            sv_potential_loss = potential_loss entry_price stop_loss lot_size,
            sv_notes = notes\<rparr>, c3))"

definition save_trade ::
  "db \<Rightarrow> string \<Rightarrow> real \<Rightarrow> real option \<Rightarrow> real option \<Rightarrow> real \<Rightarrow> real \<Rightarrow> side \<Rightarrow> string
   \<Rightarrow> string option \<Rightarrow> string option \<Rightarrow> string option \<Rightarrow> string option \<Rightarrow> save_payload \<times> db" where
  "save_trade d user_id entry_price take_profit stop_loss lot_size balance trade_type
     currency_pair timeframe trade_style strategy notes =
     (if lot_size \<le> 0 then (LotSizeError lot_size, d)
      else (let (payload, c) = save_trade_conn (connect d) user_id entry_price take_profit stop_loss
                  lot_size balance trade_type currency_pair timeframe trade_style strategy notes
            in (payload, close_conn c)))"

section \<open>log_trade_result\<close>

record logged_result =
  lr_result_id :: int
  lr_trade_id :: int
  lr_result :: outcome
  lr_profit_loss :: real
  lr_previous_balance :: real
  lr_new_balance :: real
  lr_entry_price :: real
  lr_exit_price :: real
  lr_lot_size :: real
  lr_status :: status
  lr_notes :: "string option"

text \<open>
  The four dictionaries that stand for a refusal: the trade is not found for this user,
  it is already closed (a \<^verbatim>\<open>warning\<close>), or the target price the outcome needs is not set.
  Each carries the trade identifier; the \<^verbatim>\<open>error\<close>, \<^verbatim>\<open>warning\<close>, \<^verbatim>\<open>suggestion\<close> and
  \<^verbatim>\<open>message\<close> texts are left out.
\<close>

datatype log_payload =
    TradeNotFound int
  | AlreadyClosed int
  | NoTakeProfit int
  | NoStopLoss int
  | Logged logged_result

definition fetch_trade :: "db \<Rightarrow> int \<Rightarrow> string \<Rightarrow> trade option" where
  "fetch_trade d trade_id user_id =
     find (\<lambda>t. tt_id t = trade_id \<and> tt_user_id t = user_id) (trade_tracker d)"

text \<open>The exit price and the profit or loss of an outcome, when its target price is set.\<close>

definition exit_and_profit_loss :: "trade \<Rightarrow> outcome \<Rightarrow> (real \<times> real) option" where
  "exit_and_profit_loss t res =
     (case res of
        WIN \<Rightarrow>
          if truthy (tt_take_profit t) then
            (let take_profit = the (tt_take_profit t);
                 price_move = (if tt_trade_type t = BUY then take_profit - tt_entry_price t
                               else tt_entry_price t - take_profit)
             in Some (take_profit, price_move * (tt_lot_size t * 100)))
          else None
      | LOSS \<Rightarrow>
          if truthy (tt_stop_loss t) then
            (let stop_loss = the (tt_stop_loss t);
                 price_move = (if tt_trade_type t = BUY then tt_entry_price t - stop_loss
                               else stop_loss - tt_entry_price t)
             in Some (stop_loss, - \<bar>price_move * (tt_lot_size t * 100)\<bar>))
          else None)"

definition log_trade_result_conn ::
  "conn \<Rightarrow> string \<Rightarrow> int \<Rightarrow> outcome \<Rightarrow> string option \<Rightarrow> log_payload \<times> conn" where
  "log_trade_result_conn c user_id trade_id res notes =
     (case fetch_trade (working c) trade_id user_id of
        None \<Rightarrow> (TradeNotFound trade_id, c)
      | Some t \<Rightarrow>
          if tt_status t = CLOSED then (AlreadyClosed trade_id, c)
          else
            (case exit_and_profit_loss t res of
               None \<Rightarrow> ((case res of WIN \<Rightarrow> NoTakeProfit trade_id | LOSS \<Rightarrow> NoStopLoss trade_id), c)
             | Some (exit_price, profit_loss) \<Rightarrow>
                 (let (result_id, c1) = insert_result (\<lambda>new_id now.
                        \<lparr>tr_id = new_id, tr_user_id = user_id, tr_trade_id = trade_id,
                         tr_result = res, tr_profit_loss = profit_loss, tr_notes = notes,
                         tr_timestamp = now\<rparr>) c;
                      c2 = commit c1;
                      new_balance = tt_balance t + profit_loss;
                      c3 = update_status_closed trade_id c2;
                      c4 = commit c3
                  in (Logged \<lparr>lr_result_id = result_id, lr_trade_id = trade_id, lr_result = res,
                        lr_profit_loss = profit_loss, lr_previous_balance = tt_balance t,
                        lr_new_balance = new_balance, lr_entry_price = tt_entry_price t,
                        lr_exit_price = exit_price, lr_lot_size = tt_lot_size t,
                        lr_status = CLOSED, lr_notes = notes\<rparr>, c4))))"

definition log_trade_result ::
  "db \<Rightarrow> string \<Rightarrow> int \<Rightarrow> outcome \<Rightarrow> string option \<Rightarrow> log_payload \<times> db" where
  "log_trade_result d user_id trade_id res notes =
     (let (payload, c) = log_trade_result_conn (connect d) user_id trade_id res notes
      in (payload, close_conn c))"

section \<open>Queries with bound parameters\<close>

text \<open>
  The exceptions a tool can raise.  \<^verbatim>\<open>conn.execute(sql, params)\<close> raises
  \<^verbatim>\<open>sqlite3.ProgrammingError\<close> (``Incorrect number of bindings supplied'') when the number of
  values differs from the number of \<^verbatim>\<open>?\<close> placeholders of the statement.
\<close>

datatype error = ProgrammingError | TypeError | ZeroDivisionError

definition bind_parameters :: "nat \<Rightarrow> 'a list \<Rightarrow> error + 'a list" where
  "bind_parameters placeholders params =
     (if length params = placeholders then Inr params else Inl ProgrammingError)"

text \<open>
  \<^verbatim>\<open>get_trade_insights\<close> assembles its \<^verbatim>\<open>WHERE\<close> clause from the conditions
  \<^verbatim>\<open>"currency_pair = ?"\<close>, \<^verbatim>\<open>"timeframe = ?"\<close> and \<^verbatim>\<open>"strategy = ?"\<close>, kept in \<^verbatim>\<open>filters\<close>, with
  their values in \<^verbatim>\<open>params\<close>.  A condition on a \<^verbatim>\<open>NULL\<close> column is not satisfied.
\<close>

datatype column = CurrencyPair | Timeframe | Strategy

definition column_value :: "column \<Rightarrow> trade \<Rightarrow> string option" where
  "column_value col t =
     (case col of CurrencyPair \<Rightarrow> Some (tt_currency_pair t)
      | Timeframe \<Rightarrow> tt_timeframe t
      | Strategy \<Rightarrow> tt_strategy t)"

definition conditions_hold :: "column list \<Rightarrow> string list \<Rightarrow> trade \<Rightarrow> bool" where
  "conditions_hold filters params t =
     list_all (\<lambda>(col, p). column_value col t = Some p) (zip filters params)"

definition build_filters ::
  "string option \<Rightarrow> string option \<Rightarrow> string option \<Rightarrow> column list \<times> string list" where
  "build_filters currency_pair timeframe strategy =
     (let fp0 = ([], []);
          fp1 = (if truthy_str currency_pair
                 then (fst fp0 @ [CurrencyPair], snd fp0 @ [the currency_pair]) else fp0);
          fp2 = (if truthy_str timeframe
                 then (fst fp1 @ [Timeframe], snd fp1 @ [the timeframe]) else fp1);
          fp3 = (if truthy_str strategy
                 then (fst fp2 @ [Strategy], snd fp2 @ [the strategy]) else fp2)
      in fp3)"

text \<open>
  \<^verbatim>\<open>trade_tracker tt INNER JOIN trade_results tr ON tt.id = tr.trade_id WHERE tt.status = 'CLOSED'\<close>,
  the rows every aggregate after the first is computed over.
\<close>

definition closed_with_result :: "db \<Rightarrow> (trade \<times> trade_result) list" where
  "closed_with_result d =
     [(tt, tr). tt \<leftarrow> trade_tracker d, tr \<leftarrow> trade_results d,
                tt_id tt = tr_trade_id tr, tt_status tt = CLOSED]"

definition count_result :: "outcome \<Rightarrow> (trade \<times> trade_result) list \<Rightarrow> nat" where
  "count_result res rows = length (filter (\<lambda>(tt, tr). tr_result tr = res) rows)"

definition sum_profit_loss :: "(trade \<times> trade_result) list \<Rightarrow> real" where
  "sum_profit_loss rows = sum_list (map (\<lambda>(tt, tr). tr_profit_loss tr) rows)"

text \<open>\<^verbatim>\<open>AVG\<close> skips \<^verbatim>\<open>NULL\<close> and is \<^verbatim>\<open>NULL\<close> when nothing is left.\<close>

definition sql_avg :: "real list \<Rightarrow> real option" where
  "sql_avg xs = (if xs = [] then None else Some (sum_list xs / real (length xs)))"

text \<open>
  \<^verbatim>\<open>CAST(REPLACE(risk_reward_ratio, '1:', '') AS REAL)\<close>: the cast reads the longest decimal
  prefix (sign, digits, fraction) and gives \<open>0\<close> when there is none.  Python's \<^verbatim>\<open>float\<close>
  raises where the whole text is not a number.  Exponents are not read: \<^verbatim>\<open>save_trade\<close>
  never writes one.
\<close>

fun replace_ratio_prefix :: "string \<Rightarrow> string" where
  "replace_ratio_prefix (a # b # cs) =
     (if a = CHR ''1'' \<and> b = CHR '':'' then replace_ratio_prefix cs
      else a # replace_ratio_prefix (b # cs))"
| "replace_ratio_prefix cs = cs"

definition is_digit :: "char \<Rightarrow> bool" where
  "is_digit ch = (ch \<in> set ''0123456789'')"

definition digit_value :: "char \<Rightarrow> nat" where
  "digit_value ch = length (takeWhile (\<lambda>c. c \<noteq> ch) ''0123456789'')"

definition decimal_value :: "string \<Rightarrow> string \<Rightarrow> real" where
  "decimal_value ip fp =
     real (foldl (\<lambda>a c. 10 * a + digit_value c) 0 ip)
     + real (foldl (\<lambda>a c. 10 * a + digit_value c) 0 fp) / 10 ^ length fp"

text \<open>The sign, the integer digits, the fraction digits and the text left after them.\<close>

definition split_decimal :: "string \<Rightarrow> bool \<times> string \<times> string \<times> string" where
  "split_decimal s =
     (let s0 = dropWhile (\<lambda>c. c = CHR '' '') s;
          neg = (s0 \<noteq> [] \<and> hd s0 = CHR ''-'');
          s1 = (if s0 \<noteq> [] \<and> (hd s0 = CHR ''-'' \<or> hd s0 = CHR ''+'') then tl s0 else s0);
          ip = takeWhile is_digit s1;
          r1 = dropWhile is_digit s1;
          has_point = (r1 \<noteq> [] \<and> hd r1 = CHR ''.'');
          fp = (if has_point then takeWhile is_digit (tl r1) else []);
          rest = (if has_point then dropWhile is_digit (tl r1) else r1)
      in (neg, ip, fp, rest))"

definition sqlite_cast_real :: "string \<Rightarrow> real" where
  "sqlite_cast_real s =
     (let (neg, ip, fp, rest) = split_decimal s
      in if neg then - decimal_value ip fp else decimal_value ip fp)"

definition py_float :: "string \<Rightarrow> real option" where
  "py_float s =
     (let (neg, ip, fp, rest) = split_decimal s
      in if (ip = [] \<and> fp = []) \<or> dropWhile (\<lambda>c. c = CHR '' '') rest \<noteq> [] then None
         else Some (if neg then - decimal_value ip fp else decimal_value ip fp))"

section \<open>get_trade_insights\<close>

record side_stats =
  ss_total :: nat
  ss_wins :: nat
  ss_win_rate :: real
  ss_total_pl :: real

record 'k group_stats =
  gs_key :: 'k
  gs_total_trades :: nat
  gs_wins :: nat
  gs_win_rate :: real
  gs_total_pl :: real

text \<open>
  The answer of the tool, the nested dictionaries flattened: \<open>summary\<close>,
  \<open>performance_metrics\<close>, \<open>best_performing_side\<close>, \<open>lot_size_impact\<close>,
  \<open>timeframe_performance\<close>, \<open>strategy_performance\<close>, \<open>risk_reward_analysis\<close> and
  \<open>best_combinations\<close>, in this order.
\<close>

record insights =
  ti_total_trades :: nat
  ti_open_trades :: "nat option"
  ti_closed_trades :: "nat option"
  ti_total_profit_loss :: real
  ti_win_rate :: real
  ti_wins :: nat
  ti_losses :: nat
  ti_average_profit_per_win :: real
  ti_average_loss_per_loss :: real
  ti_profit_factor :: "real option"
  ti_best_side :: string
  ti_buy_stats :: side_stats
  ti_sell_stats :: side_stats
  ti_average_lot_size_wins :: real
  ti_average_lot_size_losses :: real
  ti_lot_size_difference :: real
  ti_best_timeframe :: "string option"
  ti_all_timeframes :: "string group_stats list"
  ti_best_strategy :: "string option"
  ti_all_strategies :: "string group_stats list"
  ti_average_rr_winning_trades :: "real option"
  ti_average_rr_losing_trades :: "real option"
  ti_top_5_timeframe_strategy_combos :: "(string \<times> string) group_stats list"

text \<open>
  Query 1 counts the rows of \<^verbatim>\<open>trade_tracker\<close> under \<^verbatim>\<open>filter_clause\<close>, which holds the
  three optional conditions and nothing else.  \<^verbatim>\<open>SUM\<close> over no rows is \<^verbatim>\<open>NULL\<close>.
\<close>

definition count_query :: "db \<Rightarrow> column list \<Rightarrow> string list \<Rightarrow> nat \<times> nat option \<times> nat option" where
  "count_query d filters params =
     (let rows = filter (conditions_hold filters params) (trade_tracker d)
      in (length rows,
          (if rows = [] then None else Some (length (filter (\<lambda>t. tt_status t = OPEN) rows))),
          (if rows = [] then None else Some (length (filter (\<lambda>t. tt_status t = CLOSED) rows)))))"

text \<open>
  Queries 2 and 4 add \<^verbatim>\<open>tt.user_id = ?\<close> in front of the conditions and bind
  \<^verbatim>\<open>[user_id] + [p for p in params if p != user_id]\<close>: a filter value equal to the user
  identifier is dropped from the values while its placeholder stays.
\<close>

definition user_rows ::
  "db \<Rightarrow> string \<Rightarrow> column list \<Rightarrow> string list \<Rightarrow> error + (trade \<times> trade_result) list" where
  "user_rows d user_id filters params =
     (case bind_parameters (1 + length filters) (user_id # filter (\<lambda>p. p \<noteq> user_id) params) of
        Inl e \<Rightarrow> Inl e
      | Inr bound \<Rightarrow>
          Inr (filter (\<lambda>(tt, tr). tt_user_id tt = hd bound \<and> conditions_hold filters (tl bound) tt)
                 (closed_with_result d)))"

definition performance_query ::
  "db \<Rightarrow> string \<Rightarrow> column list \<Rightarrow> string list
   \<Rightarrow> error + (nat \<times> nat \<times> nat \<times> real \<times> real option \<times> real option)" where
  "performance_query d user_id filters params =
     (case user_rows d user_id filters params of
        Inl e \<Rightarrow> Inl e
      | Inr rows \<Rightarrow>
          Inr (length rows, count_result WIN rows, count_result LOSS rows, sum_profit_loss rows,
               sql_avg [tr_profit_loss tr. (tt, tr) \<leftarrow> rows, tr_result tr = WIN],
               sql_avg [tr_profit_loss tr. (tt, tr) \<leftarrow> rows, tr_result tr = LOSS]))"

definition lot_size_query ::
  "db \<Rightarrow> string \<Rightarrow> column list \<Rightarrow> string list \<Rightarrow> error + (real option \<times> real option)" where
  "lot_size_query d user_id filters params =
     (case user_rows d user_id filters params of
        Inl e \<Rightarrow> Inl e
      | Inr rows \<Rightarrow>
          Inr (sql_avg [tt_lot_size tt. (tt, tr) \<leftarrow> rows, tr_result tr = WIN],
               sql_avg [tt_lot_size tt. (tt, tr) \<leftarrow> rows, tr_result tr = LOSS]))"

text \<open>
  Query 3 groups by side under the three conditions only.  Without \<^verbatim>\<open>ORDER BY\<close> the
  order of the groups is the engine's; SQLite lists them by key, \<open>BUY\<close> before \<open>SELL\<close>.
\<close>

definition side_query :: "db \<Rightarrow> column list \<Rightarrow> string list \<Rightarrow> (side \<times> nat \<times> nat \<times> real) list" where
  "side_query d filters params =
     (let rows = filter (\<lambda>(tt, tr). conditions_hold filters params tt) (closed_with_result d)
      in concat (map (\<lambda>s. let g = filter (\<lambda>(tt, tr). tt_trade_type tt = s) rows
                           in if g = [] then [] else [(s, length g, count_result WIN g, sum_profit_loss g)])
                   [BUY, SELL]))"

text \<open>
  \<^verbatim>\<open>GROUP BY key ORDER BY wins * 1.0 / COUNT( * ) DESC, SUM(profit_loss) DESC\<close> over rows that
  carry their key.  Groups equal in both sort keys keep the order of their first rows.
\<close>

definition rank_key :: "'k \<times> nat \<times> nat \<times> real \<Rightarrow> real \<times> real" where
  "rank_key g = (case g of (k, n, wins, total_pl) \<Rightarrow> (- (real wins / real n), - total_pl))"

definition group_by :: "('k \<times> trade \<times> trade_result) list \<Rightarrow> ('k \<times> nat \<times> nat \<times> real) list" where
  "group_by keyed =
     map (\<lambda>k. let g = map snd (filter (\<lambda>r. fst r = k) keyed)
              in (k, length g, count_result WIN g, sum_profit_loss g))
       (remdups (map fst keyed))"

definition ranked_groups :: "('k \<times> trade \<times> trade_result) list \<Rightarrow> ('k \<times> nat \<times> nat \<times> real) list" where
  "ranked_groups keyed = sort_key rank_key (group_by keyed)"

text \<open>
  Queries 7, 8 and 10 drop the condition on their own dimension, and its value, and keep
  the others; none of them names the user.
\<close>

definition without_columns :: "column list \<Rightarrow> column list \<Rightarrow> string list \<Rightarrow> column list \<times> string list" where
  "without_columns cols filters params =
     (filter (\<lambda>f. f \<notin> set cols) filters,
      map snd (filter (\<lambda>(f, p). f \<notin> set cols) (zip filters params)))"

definition timeframe_rows :: "db \<Rightarrow> column list \<Rightarrow> string list \<Rightarrow> (string \<times> trade \<times> trade_result) list" where
  "timeframe_rows d filters params =
     (let (fs, ps) = without_columns [Timeframe] filters params
      in [(the (tt_timeframe tt), tt, tr). (tt, tr) \<leftarrow> closed_with_result d,
            tt_timeframe tt \<noteq> None, conditions_hold fs ps tt])"

definition strategy_rows :: "db \<Rightarrow> column list \<Rightarrow> string list \<Rightarrow> (string \<times> trade \<times> trade_result) list" where
  "strategy_rows d filters params =
     (let (fs, ps) = without_columns [Strategy] filters params
      in [(the (tt_strategy tt), tt, tr). (tt, tr) \<leftarrow> closed_with_result d,
            tt_strategy tt \<noteq> None, tt_strategy tt \<noteq> Some [], conditions_hold fs ps tt])"

definition combined_rows ::
  "db \<Rightarrow> column list \<Rightarrow> string list \<Rightarrow> ((string \<times> string) \<times> trade \<times> trade_result) list" where
  "combined_rows d filters params =
     (let (fs, ps) = without_columns [Timeframe, Strategy] filters params
      in [((the (tt_timeframe tt), the (tt_strategy tt)), tt, tr). (tt, tr) \<leftarrow> closed_with_result d,
            tt_timeframe tt \<noteq> None, tt_strategy tt \<noteq> None, tt_strategy tt \<noteq> Some [],
            conditions_hold fs ps tt])"

definition timeframe_query :: "db \<Rightarrow> column list \<Rightarrow> string list \<Rightarrow> (string \<times> nat \<times> nat \<times> real) list" where
  "timeframe_query d filters params = ranked_groups (timeframe_rows d filters params)"

definition strategy_query :: "db \<Rightarrow> column list \<Rightarrow> string list \<Rightarrow> (string \<times> nat \<times> nat \<times> real) list" where
  "strategy_query d filters params = ranked_groups (strategy_rows d filters params)"

definition combined_query ::
  "db \<Rightarrow> column list \<Rightarrow> string list \<Rightarrow> ((string \<times> string) \<times> nat \<times> nat \<times> real) list" where
  "combined_query d filters params = take 5 (ranked_groups (combined_rows d filters params))"

definition risk_reward_query :: "db \<Rightarrow> column list \<Rightarrow> string list \<Rightarrow> real option \<times> real option" where
  "risk_reward_query d filters params =
     (let rows = filter (\<lambda>(tt, tr). tt_risk_reward_ratio tt \<noteq> None \<and> conditions_hold filters params tt)
                   (closed_with_result d);
          rr = (\<lambda>tt. sqlite_cast_real (replace_ratio_prefix (the (tt_risk_reward_ratio tt))))
      in (sql_avg [rr tt. (tt, tr) \<leftarrow> rows, tr_result tr = WIN],
          sql_avg [rr tt. (tt, tr) \<leftarrow> rows, tr_result tr = LOSS]))"

text \<open>
  The loops over the grouped rows unpack each row into \<^verbatim>\<open>wins\<close> and \<^verbatim>\<open>total_pl\<close>, the
  names the performance figures of query 2 are held in: after a loop that ran, both hold
  the values of its last row.  The loops thread them as state.
\<close>

definition no_stats :: side_stats where
  "no_stats = \<lparr>ss_total = 0, ss_wins = 0, ss_win_rate = 0, ss_total_pl = 0\<rparr>"

definition side_loop ::
  "(side \<times> nat \<times> nat \<times> real) list \<Rightarrow> nat \<Rightarrow> real \<Rightarrow> side_stats \<times> side_stats \<times> nat \<times> real" where
  "side_loop side_perf wins total_pl =
     foldl (\<lambda>(buy_stats, sell_stats, wins, total_pl) (s, n, w, pl).
              let st = \<lparr>ss_total = n, ss_wins = w,
                        ss_win_rate = (if 0 < n then real w / real n * 100 else 0),
                        ss_total_pl = pl\<rparr>
              in if s = BUY then (st, sell_stats, w, pl) else (buy_stats, st, w, pl))
       (no_stats, no_stats, wins, total_pl) side_perf"

definition stats_loop ::
  "('k \<times> nat \<times> nat \<times> real) list \<Rightarrow> nat \<Rightarrow> real \<Rightarrow> 'k group_stats list \<times> nat \<times> real" where
  "stats_loop perf wins total_pl =
     foldl (\<lambda>(stats, wins, total_pl) (k, n, w, pl).
              (stats @ [\<lparr>gs_key = k, gs_total_trades = n, gs_wins = w,
                          gs_win_rate = round2 (if 0 < n then real w / real n * 100 else 0),
                          gs_total_pl = round2 pl\<rparr>], w, pl))
       ([], wins, total_pl) perf"

definition best_of :: "'k group_stats list \<Rightarrow> 'k option" where
  "best_of stats = (case stats of [] \<Rightarrow> None | g # _ \<Rightarrow> Some (gs_key g))"

text \<open>\<^verbatim>\<open>x if x else 0\<close> and \<^verbatim>\<open>x if x else None\<close> on a nullable number.\<close>

definition or_zero :: "real option \<Rightarrow> real" where
  "or_zero v = (if truthy v then the v else 0)"

definition or_none :: "real option \<Rightarrow> real option" where
  "or_none v = (if truthy v then v else None)"

definition get_trade_insights ::
  "db \<Rightarrow> string \<Rightarrow> string option \<Rightarrow> string option \<Rightarrow> string option \<Rightarrow> string option
   \<Rightarrow> error + insights" where
  "get_trade_insights d user_id currency_pair timeframe strategy date_filter =
     (let (filters, params) = build_filters currency_pair timeframe strategy;
          (total_trades, open_trades, closed_trades) = count_query d filters params
      in case performance_query d user_id filters params of
           Inl e \<Rightarrow> Inl e
         | Inr perf \<Rightarrow>
             (let (total_closed, wins, losses, total_pl, avg_win, avg_loss) =
                    (if fst perf \<noteq> 0 then perf else (0, 0, 0, 0, Some 0, Some 0));
                  win_rate = (if fst perf \<noteq> 0
                              then (if 0 < total_closed then real wins / real total_closed * 100 else 0)
                              else 0);
                  (buy_stats, sell_stats, wins, total_pl) =
                    side_loop (side_query d filters params) wins total_pl;
                  best_side = (if ss_win_rate sell_stats < ss_win_rate buy_stats then ''BUY''
                               else if ss_win_rate buy_stats < ss_win_rate sell_stats then ''SELL''
                               else ''TIE'')
              in case lot_size_query d user_id filters params of
                   Inl e \<Rightarrow> Inl e
                 | Inr lot_impact \<Rightarrow>
                     (let avg_lot_win = or_zero (fst lot_impact);
                          avg_lot_loss = or_zero (snd lot_impact);
                          (timeframe_stats, wins, total_pl) =
                            stats_loop (timeframe_query d filters params) wins total_pl;
                          best_timeframe = best_of timeframe_stats;
                          (strategy_stats, wins, total_pl) =
                            stats_loop (strategy_query d filters params) wins total_pl;
                          best_strategy = best_of strategy_stats;
                          rr_analysis = risk_reward_query d filters params;
                          avg_rr_win = or_none (fst rr_analysis);
                          avg_rr_loss = or_none (snd rr_analysis);
                          (best_combinations, wins, total_pl) =
                            stats_loop (combined_query d filters params) wins total_pl
                      in if truthy avg_loss \<and> avg_win = None then Inl TypeError
                         else Inr
                           \<lparr>ti_total_trades = total_trades,
                            ti_open_trades = open_trades,
                            ti_closed_trades = closed_trades,
                            ti_total_profit_loss = round2 total_pl,
                            ti_win_rate = round2 win_rate,
                            ti_wins = wins,
                            ti_losses = losses,
                            ti_average_profit_per_win = round2 (case avg_win of None \<Rightarrow> 0 | Some w \<Rightarrow> w),
                            ti_average_loss_per_loss = round2 (case avg_loss of None \<Rightarrow> 0 | Some l \<Rightarrow> l),
                            ti_profit_factor =
                              (if truthy avg_loss then Some (round2 \<bar>the avg_win / the avg_loss\<bar>)
                               else None),
                            ti_best_side = best_side,
                            ti_buy_stats = buy_stats,
                            ti_sell_stats = sell_stats,
                            ti_average_lot_size_wins = round2 avg_lot_win,
                            ti_average_lot_size_losses = round2 avg_lot_loss,
                            ti_lot_size_difference = round2 (avg_lot_win - avg_lot_loss),
                            ti_best_timeframe = best_timeframe,
                            ti_all_timeframes = timeframe_stats,
                            ti_best_strategy = best_strategy,
                            ti_all_strategies = strategy_stats,
                            ti_average_rr_winning_trades = map_option round2 avg_rr_win,
                            ti_average_rr_losing_trades = map_option round2 avg_rr_loss,
                            ti_top_5_timeframe_strategy_combos = best_combinations\<rparr>)))"

section \<open>check_risk_alerts\<close>

datatype sql_value = Text string | Integer int

datatype alert_details =
    ConsecutiveLosses nat int
  | RevengeTrading real
  | Overconfidence nat real
  | Overtrading int real
  | HighRiskPerTrade real real int
  | Drawdown real real real
  | Emotional nat nat
  | PoorRiskReward "(int \<times> string \<times> real) list"
  | MissingStopLoss "int list"
  | AccountRiskPercentage real real nat

record alert =
  al_alert_type :: string
  al_risk_level :: risk_level
  al_details :: alert_details

record report =
  rp_alerts :: "alert list"
  rp_total_alerts :: nat
  rp_critical_alerts :: nat
  rp_high_alerts :: nat
  rp_medium_alerts :: nat
  rp_low_alerts :: nat

text \<open>
  The answer: the short dictionary of the case without trades (no alerts, the message
  \<^verbatim>\<open>"No trades found to analyze"\<close>, \<^verbatim>\<open>total_alerts\<close> 0), or the report.
\<close>

datatype risk_answer = NoTradesFound | Analysed report

text \<open>Python's \<^verbatim>\<open>xs[:n]\<close> and \<^verbatim>\<open>xs[i]\<close>; a negative number counts from the end.\<close>

definition py_take :: "int \<Rightarrow> 'a list \<Rightarrow> 'a list" where
  "py_take n xs = (if 0 \<le> n then take (nat n) xs else take (length xs - nat (- n)) xs)"

definition py_index :: "'a list \<Rightarrow> int \<Rightarrow> 'a option" where
  "py_index xs i =
     (let n = int (length xs); j = (if i < 0 then n + i else i)
      in if 0 \<le> j \<and> j < n then Some (xs ! nat j) else None)"

text \<open>\<^verbatim>\<open>LIMIT ?\<close>: a negative limit is no limit.\<close>

definition sql_limit :: "sql_value \<Rightarrow> 'a list \<Rightarrow> 'a list" where
  "sql_limit v rows = (case v of Integer n \<Rightarrow> (if n < 0 then rows else take (nat n) rows) | Text _ \<Rightarrow> rows)"

definition left_join_results :: "db \<Rightarrow> (trade \<times> trade_result option) list" where
  "left_join_results d =
     concat (map (\<lambda>tt. let rs = filter (\<lambda>tr. tr_trade_id tr = tt_id tt) (trade_results d)
                        in if rs = [] then [(tt, None)] else map (\<lambda>tr. (tt, Some tr)) rs)
               (trade_tracker d))"

text \<open>
  The closed trades of the user with their results, newest first, at most the limit:
  two placeholders (\<^verbatim>\<open>tt.user_id = ?\<close> and \<^verbatim>\<open>LIMIT ?\<close>).
\<close>

definition recent_trades_query :: "db \<Rightarrow> sql_value list \<Rightarrow> error + (trade \<times> trade_result option) list" where
  "recent_trades_query d params =
     (case bind_parameters 2 params of
        Inl e \<Rightarrow> Inl e
      | Inr bound \<Rightarrow>
          Inr (sql_limit (bound ! 1)
                 (sort_key (\<lambda>(tt, tr). - tt_timestamp tt)
                    (filter (\<lambda>(tt, tr). tt_status tt = CLOSED \<and> Text (tt_user_id tt) = bound ! 0)
                       (left_join_results d)))))"

text \<open>The open trades of the user, newest first: one placeholder (\<^verbatim>\<open>user_id = ?\<close>).\<close>

definition open_trades_query :: "db \<Rightarrow> sql_value list \<Rightarrow> error + trade list" where
  "open_trades_query d params =
     (case bind_parameters 1 params of
        Inl e \<Rightarrow> Inl e
      | Inr bound \<Rightarrow>
          Inr (sort_key (\<lambda>tt. - tt_timestamp tt)
                 (filter (\<lambda>tt. tt_status tt = OPEN \<and> Text (tt_user_id tt) = bound ! 0)
                    (trade_tracker d))))"

definition result_of :: "trade \<times> trade_result option \<Rightarrow> outcome option" where
  "result_of r = map_option tr_result (snd r)"

definition risk_amount_of :: "trade \<Rightarrow> real" where
  "risk_amount_of t =
     (let stop_loss = the (tt_stop_loss t);
          risk_distance = (if tt_trade_type t = BUY then \<bar>tt_entry_price t - stop_loss\<bar>
                           else \<bar>stop_loss - tt_entry_price t\<bar>)
      in risk_distance * (tt_lot_size t * 100))"

subsection \<open>The ten rules\<close>

definition consecutive_losses_rule :: "(trade \<times> trade_result option) list \<Rightarrow> int \<Rightarrow> int \<Rightarrow> alert list" where
  "consecutive_losses_rule recent_trades recent_trades_count consecutive_loss_threshold =
     (let consecutive_losses =
            length (takeWhile (\<lambda>r. result_of r = Some LOSS) (py_take recent_trades_count recent_trades))
      in if consecutive_loss_threshold \<le> int consecutive_losses
         then [\<lparr>al_alert_type = ''CONSECUTIVE_LOSSES'',
                al_risk_level = (if 5 \<le> consecutive_losses then CRITICAL else HIGH),
                al_details = ConsecutiveLosses consecutive_losses consecutive_loss_threshold\<rparr>]
         else [])"

fun revenge_trading_rule :: "(trade \<times> trade_result option) list \<Rightarrow> alert list" where
  "revenge_trading_rule (current_trade # previous_trade # rest) =
     (case snd previous_trade of
        None \<Rightarrow> revenge_trading_rule (previous_trade # rest)
      | Some tr \<Rightarrow>
          if tr_result tr = LOSS then
            (let time_diff = real_of_int (tt_timestamp (fst current_trade) - tr_timestamp tr) / 3600
             in if time_diff < 1
                then [\<lparr>al_alert_type = ''REVENGE_TRADING'', al_risk_level = HIGH,
                       al_details = RevengeTrading (round2 time_diff)\<rparr>]
                else revenge_trading_rule (previous_trade # rest))
          else revenge_trading_rule (previous_trade # rest))"
| "revenge_trading_rule _ = []"

definition overconfidence_rule :: "(trade \<times> trade_result option) list \<Rightarrow> error + alert list" where
  "overconfidence_rule recent_trades =
     (if 3 \<le> length recent_trades then
        (let wins = filter (\<lambda>r. result_of r = Some WIN) (take 5 recent_trades)
         in if 3 \<le> length wins then
              (let lot_sizes = map (\<lambda>w. tt_lot_size (fst w)) wins
               in if 2 \<le> length lot_sizes \<and> last lot_sizes * (12 / 10) < hd lot_sizes then
                    (if last lot_sizes = 0 then Inl ZeroDivisionError
                     else Inr [\<lparr>al_alert_type = ''OVERCONFIDENCE'', al_risk_level = MEDIUM,
                                al_details = Overconfidence (length wins)
                                  ((hd lot_sizes / last lot_sizes - 1) * 100)\<rparr>])
                  else Inr [])
            else Inr [])
      else Inr [])"

definition overtrading_rule :: "(trade \<times> trade_result option) list \<Rightarrow> int \<Rightarrow> alert list" where
  "overtrading_rule recent_trades max_trades_per_hour =
     (if max_trades_per_hour \<le> int (length recent_trades) then
        (case (py_index recent_trades 0, py_index recent_trades (max_trades_per_hour - 1)) of
           (Some latest, Some oldest) \<Rightarrow>
             (let time_span = real_of_int (tt_timestamp (fst latest) - tt_timestamp (fst oldest)) / 3600
              in if time_span \<le> 1
                 then [\<lparr>al_alert_type = ''OVERTRADING'', al_risk_level = HIGH,
                        al_details = Overtrading max_trades_per_hour (round2 time_span)\<rparr>]
                 else [])
         | _ \<Rightarrow> [])
      else [])"

fun high_risk_rule :: "trade list \<Rightarrow> real \<Rightarrow> alert list" where
  "high_risk_rule [] max_risk_per_trade_percent = []"
| "high_risk_rule (t # ts) max_risk_per_trade_percent =
     (if tt_balance t \<noteq> 0 \<and> tt_lot_size t \<noteq> 0 \<and> truthy (tt_stop_loss t) \<and> tt_entry_price t \<noteq> 0 then
        (let risk_amount = risk_amount_of t;
             risk_percent = (if 0 < tt_balance t then risk_amount / tt_balance t * 100 else 0)
         in if max_risk_per_trade_percent < risk_percent
            then [\<lparr>al_alert_type = ''HIGH_RISK_PER_TRADE'',
                   al_risk_level = (if 5 < risk_percent then CRITICAL else HIGH),
                   al_details = HighRiskPerTrade (round2 risk_percent) (round2 risk_amount) (tt_id t)\<rparr>]
            else high_risk_rule ts max_risk_per_trade_percent)
      else high_risk_rule ts max_risk_per_trade_percent)"

definition drawdown_rule :: "(trade \<times> trade_result option) list \<Rightarrow> real \<Rightarrow> alert list" where
  "drawdown_rule recent_trades drawdown_threshold_percent =
     (if 3 \<le> length recent_trades then
        (let balances = filter (\<lambda>b. b \<noteq> 0) (map (\<lambda>t. tt_balance (fst t)) recent_trades)
         in if 2 \<le> length balances then
              (let highest_balance = fold max (tl balances) (hd balances);
                   current_balance = hd balances;
                   drawdown_percent = (if 0 < highest_balance
                       then (highest_balance - current_balance) / highest_balance * 100 else 0)
               in if drawdown_threshold_percent \<le> drawdown_percent
                  then [\<lparr>al_alert_type = ''DRAWDOWN'',
                         al_risk_level = (if 20 < drawdown_percent then CRITICAL else HIGH),
                         al_details = Drawdown (round2 drawdown_percent) highest_balance current_balance\<rparr>]
                  else [])
            else [])
      else [])"

definition emotional_rule :: "(trade \<times> trade_result option) list \<Rightarrow> alert list" where
  "emotional_rule recent_trades =
     (if 5 \<le> length recent_trades then
        (let loss_count = length (filter (\<lambda>r. result_of r = Some LOSS) (take 5 recent_trades));
             win_count = length (filter (\<lambda>r. result_of r = Some WIN) (take 5 recent_trades))
         in if 4 \<le> loss_count
            then [\<lparr>al_alert_type = ''EMOTIONAL'', al_risk_level = HIGH,
                   al_details = Emotional loss_count win_count\<rparr>]
            else [])
      else [])"

definition poor_risk_reward_rule :: "trade list \<Rightarrow> alert list" where
  "poor_risk_reward_rule candidates =
     (let poor_rr_trades =
            concat (map (\<lambda>t. if truthy_str (tt_risk_reward_ratio t) then
                                (case py_float (replace_ratio_prefix (the (tt_risk_reward_ratio t))) of
                                   None \<Rightarrow> []
                                 | Some rr_value \<Rightarrow>
                                     if rr_value < 1
                                     then [(tt_id t, the (tt_risk_reward_ratio t), rr_value)] else [])
                              else [])
                      candidates)
      in if poor_rr_trades \<noteq> []
         then [\<lparr>al_alert_type = ''POOR_RISK_REWARD'', al_risk_level = MEDIUM,
                al_details = PoorRiskReward poor_rr_trades\<rparr>]
         else [])"

definition missing_stop_loss_rule :: "trade list \<Rightarrow> alert list" where
  "missing_stop_loss_rule candidates =
     (let missing_sl_trades = map tt_id (filter (\<lambda>t. \<not> truthy (tt_stop_loss t)) candidates)
      in if missing_sl_trades \<noteq> []
         then [\<lparr>al_alert_type = ''MISSING_STOP_LOSS'', al_risk_level = CRITICAL,
                al_details = MissingStopLoss missing_sl_trades\<rparr>]
         else [])"

definition account_risk_rule :: "trade list \<Rightarrow> alert list" where
  "account_risk_rule open_trades =
     (if open_trades \<noteq> [] then
        (let current_balance = tt_balance (hd open_trades);
             total_risk = sum_list (map risk_amount_of
                 (filter (\<lambda>t. truthy (tt_stop_loss t) \<and> tt_entry_price t \<noteq> 0 \<and> tt_lot_size t \<noteq> 0)
                    open_trades))
         in if 0 < current_balance then
              (let total_risk_percent = total_risk / current_balance * 100
               in if 10 < total_risk_percent
                  then [\<lparr>al_alert_type = ''ACCOUNT_RISK_PERCENTAGE'',
                         al_risk_level = (if 20 < total_risk_percent then CRITICAL else HIGH),
                         al_details = AccountRiskPercentage (round2 total_risk_percent)
                           (round2 total_risk) (length open_trades)\<rparr>]
                  else [])
            else [])
      else [])"

definition detect_alerts ::
  "(trade \<times> trade_result option) list \<Rightarrow> trade list \<Rightarrow> int \<Rightarrow> int \<Rightarrow> int \<Rightarrow> real \<Rightarrow> real
   \<Rightarrow> error + alert list" where
  "detect_alerts recent_trades open_trades recent_trades_count consecutive_loss_threshold
     max_trades_per_hour max_risk_per_trade_percent drawdown_threshold_percent =
     (let candidates = map fst (take 5 recent_trades) @ take 3 open_trades
      in case overconfidence_rule recent_trades of
           Inl e \<Rightarrow> Inl e
         | Inr overconfidence \<Rightarrow>
             Inr (consecutive_losses_rule recent_trades recent_trades_count consecutive_loss_threshold
                  @ (if 2 \<le> length recent_trades then revenge_trading_rule recent_trades else [])
                  @ overconfidence
                  @ overtrading_rule recent_trades max_trades_per_hour
                  @ high_risk_rule candidates max_risk_per_trade_percent
                  @ drawdown_rule recent_trades drawdown_threshold_percent
                  @ emotional_rule recent_trades
                  @ poor_risk_reward_rule candidates
                  @ missing_stop_loss_rule candidates
                  @ account_risk_rule open_trades))"

subsection \<open>The tool\<close>

definition insert_alert :: "string \<Rightarrow> conn \<Rightarrow> alert \<Rightarrow> conn" where
  "insert_alert user_id c a =
     (let d = working c
      in c\<lparr>working := d\<lparr>risk_monitor := risk_monitor d @
           [\<lparr>rm_user_id = user_id, rm_alert_type = al_alert_type a,
             rm_risk_level = al_risk_level a, rm_acknowledged = False\<rparr>]\<rparr>\<rparr>)"

definition risk_order :: "risk_level \<Rightarrow> int" where
  "risk_order l = (case l of CRITICAL \<Rightarrow> 4 | HIGH \<Rightarrow> 3 | MEDIUM \<Rightarrow> 2 | LOW \<Rightarrow> 1)"

definition count_level :: "risk_level \<Rightarrow> alert list \<Rightarrow> nat" where
  "count_level l alerts = length (filter (\<lambda>a. al_risk_level a = l) alerts)"

text \<open>
  The first query binds \<^verbatim>\<open>(user_id, recent_trades_count * 2)\<close>; the second is executed
  with its statement alone, no values.
\<close>

definition check_risk_alerts_conn ::
  "conn \<Rightarrow> string \<Rightarrow> int \<Rightarrow> int \<Rightarrow> int \<Rightarrow> real \<Rightarrow> real \<Rightarrow> error + (risk_answer \<times> conn)" where
  "check_risk_alerts_conn c user_id recent_trades_count consecutive_loss_threshold
     max_trades_per_hour max_risk_per_trade_percent drawdown_threshold_percent =
     (case recent_trades_query (working c) [Text user_id, Integer (recent_trades_count * 2)] of
        Inl e \<Rightarrow> Inl e
      | Inr recent_trades \<Rightarrow>
          (case open_trades_query (working c) [] of
             Inl e \<Rightarrow> Inl e
           | Inr open_trades \<Rightarrow>
               if recent_trades = [] \<and> open_trades = [] then Inr (NoTradesFound, c)
               else
                 (case detect_alerts recent_trades open_trades recent_trades_count
                         consecutive_loss_threshold max_trades_per_hour
                         max_risk_per_trade_percent drawdown_threshold_percent of
                    Inl e \<Rightarrow> Inl e
                  | Inr alerts \<Rightarrow>
                      (let c1 = commit (foldl (insert_alert user_id) c alerts);
                           sorted_alerts = sort_key (\<lambda>a. - risk_order (al_risk_level a)) alerts
                       in Inr (Analysed
                                 \<lparr>rp_alerts = sorted_alerts,
                                  rp_total_alerts = length sorted_alerts,
                                  rp_critical_alerts = count_level CRITICAL sorted_alerts,
                                  rp_high_alerts = count_level HIGH sorted_alerts,
                                  rp_medium_alerts = count_level MEDIUM sorted_alerts,
                                  rp_low_alerts = count_level LOW sorted_alerts\<rparr>, c1)))))"

text \<open>
  An exception leaves the \<^verbatim>\<open>with\<close> block before anything was committed: the store stays
  as it was.
\<close>

definition check_risk_alerts ::
  "db \<Rightarrow> string \<Rightarrow> int \<Rightarrow> int \<Rightarrow> int \<Rightarrow> real \<Rightarrow> real \<Rightarrow> (error + risk_answer) \<times> db" where
  "check_risk_alerts d user_id recent_trades_count consecutive_loss_threshold
     max_trades_per_hour max_risk_per_trade_percent drawdown_threshold_percent =
     (case check_risk_alerts_conn (connect d) user_id recent_trades_count consecutive_loss_threshold
             max_trades_per_hour max_risk_per_trade_percent drawdown_threshold_percent of
        Inl e \<Rightarrow> (Inl e, d)
      | Inr (answer, c) \<Rightarrow> (Inr answer, close_conn c))"

section \<open>Stores the tools produce\<close>

text \<open>
  The stores reachable from an empty one by calls of the tools that run to completion, and
  by the passing of time.  \<open>get_trade_insights\<close> only reads.
\<close>

inductive reachable :: "db \<Rightarrow> bool" where
  reachable_empty: "reachable (empty_db now)"
| reachable_save:
    "reachable d \<Longrightarrow>
     reachable (snd (save_trade d user_id entry_price take_profit stop_loss lot_size balance
                       trade_type currency_pair timeframe trade_style strategy notes))"
| reachable_log: "reachable d \<Longrightarrow> reachable (snd (log_trade_result d user_id trade_id res notes))"
| reachable_check:
    "reachable d \<Longrightarrow>
     reachable (snd (check_risk_alerts d user_id recent_trades_count consecutive_loss_threshold
                       max_trades_per_hour max_risk_per_trade_percent drawdown_threshold_percent))"
| reachable_tick: "reachable d \<Longrightarrow> reachable (d\<lparr>clock := now\<rparr>)"

text \<open>The results that reference a trade identifier.\<close>

definition results_of :: "db \<Rightarrow> int \<Rightarrow> trade_result list" where
  "results_of d trade_id = filter (\<lambda>r. tr_trade_id r = trade_id) (trade_results d)"

definition ledger_inv :: "db \<Rightarrow> bool" where
  "ledger_inv d =
     (list_all (\<lambda>t. tt_id t \<le> trade_seq d) (trade_tracker d)
      \<and> list_all (\<lambda>r. tr_trade_id r \<le> trade_seq d) (trade_results d)
      \<and> list_all (\<lambda>t. tt_status t = CLOSED \<or> results_of d (tt_id t) = []) (trade_tracker d)
      \<and> list_all (\<lambda>r. length (results_of d (tr_trade_id r)) \<le> 1) (trade_results d))"

section \<open>Rankings\<close>

text \<open>
  What a ranking by timeframe, by strategy or by their combination is, stated apart from
  the queries, to compare the queries with.
\<close>

text \<open>One entry of a ranking as the tool returns it, rates and amounts rounded.\<close>

definition group_stats_of :: "'k \<times> nat \<times> nat \<times> real \<Rightarrow> 'k group_stats" where
  "group_stats_of g =
     (case g of (k, n, w, pl) \<Rightarrow>
        \<lparr>gs_key = k, gs_total_trades = n, gs_wins = w,
         gs_win_rate = round2 (real w / real n * 100), gs_total_pl = round2 pl\<rparr>)"

text \<open>
  The order of a ranking: a higher win rate first, and of two equal win rates the higher
  total profit or loss first.
\<close>

definition ranks_before :: "'k \<times> nat \<times> nat \<times> real \<Rightarrow> 'k \<times> nat \<times> nat \<times> real \<Rightarrow> bool" where
  "ranks_before a b =
     (case (a, b) of ((k, n, w, pl), (k', n', w', pl')) \<Rightarrow>
        real w' / real n' < real w / real n
        \<or> (real w / real n = real w' / real n' \<and> pl' \<le> pl))"

text \<open>
  A ranking of keyed rows: one group per key that occurs, each with the count, the wins
  and the total of the rows of its key, in the order above.
\<close>

definition ranking_of :: "('k \<times> trade \<times> trade_result) list \<Rightarrow> ('k \<times> nat \<times> nat \<times> real) list \<Rightarrow> bool" where
  "ranking_of keyed rank =
     (distinct (map fst rank)
      \<and> set (map fst rank) = set (map fst keyed)
      \<and> list_all (\<lambda>(k, n, w, pl).
            n = length (filter (\<lambda>r. fst r = k) keyed)
            \<and> w = count_result WIN (map snd (filter (\<lambda>r. fst r = k) keyed))
            \<and> pl = sum_profit_loss (map snd (filter (\<lambda>r. fst r = k) keyed))) rank
      \<and> sorted_wrt ranks_before rank)"

text \<open>
  The rows a ranking is taken over, in terms of the arguments of the tool: closed trades
  joined with their results, with the dimension set, under the filters on the other
  dimensions.  An absent or empty filter admits every row.
\<close>

definition matches :: "string option \<Rightarrow> string option \<Rightarrow> bool" where
  "matches wanted actual = (if truthy_str wanted then actual = wanted else True)"

definition timeframe_candidates :: "db \<Rightarrow> string option \<Rightarrow> string option \<Rightarrow> (string \<times> trade \<times> trade_result) list" where
  "timeframe_candidates d currency_pair strategy =
     [(the (tt_timeframe tt), tt, tr). (tt, tr) \<leftarrow> closed_with_result d,
        tt_timeframe tt \<noteq> None,
        matches currency_pair (Some (tt_currency_pair tt)) \<and> matches strategy (tt_strategy tt)]"

definition strategy_candidates :: "db \<Rightarrow> string option \<Rightarrow> string option \<Rightarrow> (string \<times> trade \<times> trade_result) list" where
  "strategy_candidates d currency_pair timeframe =
     [(the (tt_strategy tt), tt, tr). (tt, tr) \<leftarrow> closed_with_result d,
        tt_strategy tt \<noteq> None, tt_strategy tt \<noteq> Some [],
        matches currency_pair (Some (tt_currency_pair tt)) \<and> matches timeframe (tt_timeframe tt)]"

definition combined_candidates :: "db \<Rightarrow> string option \<Rightarrow> ((string \<times> string) \<times> trade \<times> trade_result) list" where
  "combined_candidates d currency_pair =
     [((the (tt_timeframe tt), the (tt_strategy tt)), tt, tr). (tt, tr) \<leftarrow> closed_with_result d,
        tt_timeframe tt \<noteq> None, tt_strategy tt \<noteq> None, tt_strategy tt \<noteq> Some [],
        matches currency_pair (Some (tt_currency_pair tt))]"

section \<open>Example stores\<close>

text \<open>
  \<open>alice_only\<close>: one trade of alice, closed as a win.  \<open>alice_and_bob\<close>: the same, and one
  trade of bob, closed as a loss.  \<open>bob_only\<close>: one trade of bob, closed as a win.
  \<open>one_loss\<close>: one trade, closed as a loss.
\<close>

definition alice_only :: db where
  "alice_only = snd (log_trade_result (snd (save_trade (empty_db 0) ''alice'' 2000 (Some 1990) (Some 2005)
       (1 / 100) 500 SELL ''XAU/USD'' (Some ''1h'') None (Some ''smc'') None)) ''alice'' 1 WIN None)"

definition alice_and_bob :: db where
  "alice_and_bob = snd (log_trade_result (snd (save_trade alice_only ''bob'' 2000 (Some 2010) (Some 1995)
       (3 / 100) 1000 BUY ''XAU/USD'' (Some ''5m'') None (Some ''breakout'') None)) ''bob'' 2 LOSS None)"

definition bob_only :: db where
  "bob_only = snd (log_trade_result (snd (save_trade (empty_db 0) ''bob'' 2000 (Some 2010) (Some 1995)
       (3 / 100) 1000 BUY ''XAU/USD'' None None None None)) ''bob'' 1 WIN None)"

definition one_loss :: db where
  "one_loss = snd (log_trade_result (snd (save_trade (empty_db 0) ''u1'' 2000 (Some 2010) (Some 1995)
       (3 / 100) 1000 BUY ''XAU/USD'' None None None None)) ''u1'' 1 LOSS None)"

section \<open>Properties\<close>

subsection \<open>What the two writing tools do to the store\<close>

lemma save_trade_accepted:
  "0 < lot_size \<Longrightarrow>
     save_trade d user_id entry_price take_profit stop_loss lot_size balance trade_type
       currency_pair timeframe trade_style strategy notes =
     (Saved \<lparr>sv_trade_id = trade_seq d + 1, sv_status = OPEN, sv_entry_price = entry_price,
        sv_take_profit = take_profit, sv_stop_loss = stop_loss, sv_lot_size = lot_size,
        sv_balance = balance, sv_trade_type = trade_type, sv_currency_pair = currency_pair,
        sv_timeframe = timeframe, sv_trade_style = trade_style, sv_strategy = strategy,
        sv_risk_reward_ratio = risk_reward entry_price take_profit stop_loss trade_type,
        sv_potential_profit = potential_profit entry_price take_profit lot_size,
        sv_potential_loss = potential_loss entry_price stop_loss lot_size,
        sv_notes = notes\<rparr>,
      d\<lparr>users := (if list_ex (\<lambda>(u, n). u = user_id \<or> n = user_id) (users d) then users d
                    else users d @ [(user_id, user_id)]),
        trade_tracker := trade_tracker d @
          [\<lparr>tt_id = trade_seq d + 1, tt_user_id = user_id, tt_entry_price = entry_price,
            tt_take_profit = take_profit, tt_stop_loss = stop_loss, tt_lot_size = lot_size,
            tt_balance = balance, tt_trade_type = trade_type, tt_currency_pair = currency_pair,
            tt_timeframe = timeframe, tt_trade_style = trade_style, tt_strategy = strategy,
            tt_risk_reward_ratio = risk_reward entry_price take_profit stop_loss trade_type,
            tt_notes = notes, tt_timestamp = clock d, tt_status = OPEN\<rparr>],
        trade_seq := trade_seq d + 1\<rparr>)"
  by (simp add: save_trade_def save_trade_conn_def connect_def commit_def close_conn_def
      insert_or_ignore_user_def insert_trade_def Let_def)


lemma log_trade_result_unfold:
  "log_trade_result d user_id trade_id res notes =
     (case fetch_trade d trade_id user_id of
        None \<Rightarrow> (TradeNotFound trade_id, d)
      | Some t \<Rightarrow>
          if tt_status t = CLOSED then (AlreadyClosed trade_id, d)
          else
            (case exit_and_profit_loss t res of
               None \<Rightarrow> ((case res of WIN \<Rightarrow> NoTakeProfit trade_id | LOSS \<Rightarrow> NoStopLoss trade_id), d)
             | Some (exit_price, profit_loss) \<Rightarrow>
                 (Logged \<lparr>lr_result_id = result_seq d + 1, lr_trade_id = trade_id, lr_result = res,
                    lr_profit_loss = profit_loss, lr_previous_balance = tt_balance t,
                    lr_new_balance = tt_balance t + profit_loss, lr_entry_price = tt_entry_price t,
                    lr_exit_price = exit_price, lr_lot_size = tt_lot_size t,
                    lr_status = CLOSED, lr_notes = notes\<rparr>,
                  d\<lparr>trade_results := trade_results d @
                      [\<lparr>tr_id = result_seq d + 1, tr_user_id = user_id, tr_trade_id = trade_id,
                        tr_result = res, tr_profit_loss = profit_loss, tr_notes = notes,
                        tr_timestamp = clock d\<rparr>],
                    result_seq := result_seq d + 1,
                    trade_tracker := map (\<lambda>t. if tt_id t = trade_id then t\<lparr>tt_status := CLOSED\<rparr> else t)
                                       (trade_tracker d)\<rparr>)))"
  by (simp add: log_trade_result_def log_trade_result_conn_def connect_def commit_def close_conn_def
      insert_result_def update_status_closed_def Let_def split: option.splits prod.splits)


lemma fetch_trade_Some:
  "fetch_trade d trade_id user_id = Some t \<Longrightarrow>
     t \<in> set (trade_tracker d) \<and> tt_id t = trade_id \<and> tt_user_id t = user_id"
  by (auto simp: fetch_trade_def find_Some_iff)

lemma find_map_preserved:
  "(\<And>x. P (f x) = P x) \<Longrightarrow> find P (map f xs) = map_option f (find P xs)"
  by (induction xs) simp_all

lemma ledger_inv_cong:
  "trade_tracker d' = trade_tracker d \<Longrightarrow> trade_results d' = trade_results d \<Longrightarrow>
   trade_seq d' = trade_seq d \<Longrightarrow> ledger_inv d' = ledger_inv d"
  by (simp add: ledger_inv_def results_of_def)

lemma ledger_inv_empty: "ledger_inv (empty_db now)"
  by (simp add: ledger_inv_def empty_db_def results_of_def)

lemma ledger_inv_save:
  assumes "ledger_inv d"
  shows "ledger_inv (snd (save_trade d user_id entry_price take_profit stop_loss lot_size balance
                       trade_type currency_pair timeframe trade_style strategy notes))"
proof (cases "lot_size \<le> 0")
  case True
  then show ?thesis using assms by (simp add: save_trade_def)
next
  case False
  then have pos: "0 < lot_size" by simp
  have fresh: "results_of d (trade_seq d + 1) = []"
    using assms by (auto simp: ledger_inv_def results_of_def list_all_iff filter_empty_conv)
  show ?thesis
    using assms fresh
    by (simp add: save_trade_accepted [OF pos] ledger_inv_def results_of_def list_all_iff)
       (auto simp: filter_empty_conv)
qed


lemma log_trade_result_store:
  assumes "fetch_trade d trade_id user_id = Some t" and "tt_status t \<noteq> CLOSED"
    and "exit_and_profit_loss t res = Some (exit_price, profit_loss)"
  shows "trade_tracker (snd (log_trade_result d user_id trade_id res notes))
           = map (\<lambda>t. if tt_id t = trade_id then t\<lparr>tt_status := CLOSED\<rparr> else t) (trade_tracker d)"
    and "trade_results (snd (log_trade_result d user_id trade_id res notes))
           = trade_results d @ [\<lparr>tr_id = result_seq d + 1, tr_user_id = user_id,
               tr_trade_id = trade_id, tr_result = res, tr_profit_loss = profit_loss,
               tr_notes = notes, tr_timestamp = clock d\<rparr>]"
    and "trade_seq (snd (log_trade_result d user_id trade_id res notes)) = trade_seq d"
  using assms by (simp_all add: log_trade_result_unfold)

lemma ledger_inv_log:
  assumes "ledger_inv d"
  shows "ledger_inv (snd (log_trade_result d user_id trade_id res notes))"
proof (cases "fetch_trade d trade_id user_id")
  case None
  then show ?thesis using assms by (simp add: log_trade_result_unfold)
next
  case (Some t)
  note found = fetch_trade_Some [OF Some]
  show ?thesis
  proof (cases "tt_status t = CLOSED \<or> exit_and_profit_loss t res = None")
    case True
    then show ?thesis using assms Some
      by (auto simp: log_trade_result_unfold split: outcome.splits)
  next
    case False
    then obtain exit_price profit_loss where
      pl: "exit_and_profit_loss t res = Some (exit_price, profit_loss)" and op: "tt_status t \<noteq> CLOSED"
      by auto
    let ?d' = "snd (log_trade_result d user_id trade_id res notes)"
    note st = log_trade_result_store [OF Some op pl, of "notes"]
    have none: "results_of d trade_id = []"
      using assms found op by (auto simp: ledger_inv_def list_all_iff)
    have le: "trade_id \<le> trade_seq d"
      using assms found by (auto simp: ledger_inv_def list_all_iff)
    have old: "tr_trade_id r \<noteq> trade_id" if "r \<in> set (trade_results d)" for r
      using none that by (auto simp: results_of_def filter_empty_conv)
    have other: "results_of ?d' i = results_of d i" if "i \<noteq> trade_id" for i
      using that by (simp add: results_of_def st)
    have this_one: "length (results_of ?d' trade_id) = 1"
      using none by (simp add: results_of_def st)
    have c1: "list_all (\<lambda>t. tt_id t \<le> trade_seq ?d') (trade_tracker ?d')"
      using assms by (auto simp: ledger_inv_def list_all_iff st)
    have c2: "list_all (\<lambda>r. tr_trade_id r \<le> trade_seq ?d') (trade_results ?d')"
      using assms le by (auto simp: ledger_inv_def list_all_iff st)
    have c3: "list_all (\<lambda>t. tt_status t = CLOSED \<or> results_of ?d' (tt_id t) = []) (trade_tracker ?d')"
      unfolding list_all_iff
    proof
      fix x assume "x \<in> set (trade_tracker ?d')"
      then obtain y where y: "y \<in> set (trade_tracker d)"
        and x: "x = (if tt_id y = trade_id then y\<lparr>tt_status := CLOSED\<rparr> else y)"
        by (auto simp: st)
      show "tt_status x = CLOSED \<or> results_of ?d' (tt_id x) = []"
      proof (cases "tt_id y = trade_id")
        case True
        then show ?thesis using x by simp
      next
        case False
        then have "results_of ?d' (tt_id y) = results_of d (tt_id y)" by (rule other)
        moreover have "tt_status y = CLOSED \<or> results_of d (tt_id y) = []"
          using assms y by (auto simp: ledger_inv_def list_all_iff)
        ultimately show ?thesis using x False by auto
      qed
    qed
    have c4: "list_all (\<lambda>r. length (results_of ?d' (tr_trade_id r)) \<le> 1) (trade_results ?d')"
      unfolding list_all_iff
    proof
      fix r assume r: "r \<in> set (trade_results ?d')"
      show "length (results_of ?d' (tr_trade_id r)) \<le> 1"
      proof (cases "tr_trade_id r = trade_id")
        case True
        then show ?thesis using this_one by simp
      next
        case False
        then have "r \<in> set (trade_results d)" using r by (auto simp: st)
        then have "length (results_of d (tr_trade_id r)) \<le> 1"
          using assms by (auto simp: ledger_inv_def list_all_iff)
        then show ?thesis using other [OF False] by simp
      qed
    qed
    show ?thesis unfolding ledger_inv_def using c1 c2 c3 c4 by blast
  qed
qed

lemma insert_alerts_keep_ledger:
  "trade_tracker (working (foldl (insert_alert user_id) c alerts)) = trade_tracker (working c)
   \<and> trade_results (working (foldl (insert_alert user_id) c alerts)) = trade_results (working c)
   \<and> trade_seq (working (foldl (insert_alert user_id) c alerts)) = trade_seq (working c)"
  by (induction alerts arbitrary: c) (simp_all add: insert_alert_def Let_def)

lemma check_risk_alerts_keeps_ledger:
  "trade_tracker (snd (check_risk_alerts d user_id n k m x y)) = trade_tracker d
   \<and> trade_results (snd (check_risk_alerts d user_id n k m x y)) = trade_results d
   \<and> trade_seq (snd (check_risk_alerts d user_id n k m x y)) = trade_seq d"
  using insert_alerts_keep_ledger [of user_id "connect d"]
  by (auto simp: check_risk_alerts_def check_risk_alerts_conn_def close_conn_def commit_def
      connect_def Let_def split: sum.splits if_splits)

lemma reachable_ledger_inv: "reachable d \<Longrightarrow> ledger_inv d"
proof (induction rule: reachable.induct)
  case (reachable_empty now)
  show ?case by (rule ledger_inv_empty)
next
  case (reachable_save d)
  then show ?case by (simp add: ledger_inv_save)
next
  case (reachable_log d)
  then show ?case by (simp add: ledger_inv_log)
next
  case (reachable_check d user_id n k m x y)
  then show ?case
    using check_risk_alerts_keeps_ledger [of d user_id n k m x y] ledger_inv_cong by blast
next
  case (reachable_tick d now)
  then show ?case by (simp add: ledger_inv_def results_of_def)
qed


lemma fetch_trade_after_close:
  "fetch_trade (snd (log_trade_result d user_id trade_id res notes)) trade_id user_id
     = (case fst (log_trade_result d user_id trade_id res notes) of
          Logged p \<Rightarrow> map_option (\<lambda>t. t\<lparr>tt_status := CLOSED\<rparr>) (fetch_trade d trade_id user_id)
        | _ \<Rightarrow> fetch_trade d trade_id user_id)"
proof (cases "fetch_trade d trade_id user_id")
  case None
  then show ?thesis by (simp add: log_trade_result_unfold)
next
  case (Some t)
  have eq: "find (\<lambda>t. tt_id t = trade_id \<and> tt_user_id t = user_id)
              (map (\<lambda>t. if tt_id t = trade_id then t\<lparr>tt_status := CLOSED\<rparr> else t) (trade_tracker d))
            = map_option (\<lambda>t. if tt_id t = trade_id then t\<lparr>tt_status := CLOSED\<rparr> else t)
                (find (\<lambda>t. tt_id t = trade_id \<and> tt_user_id t = user_id) (trade_tracker d))"
    by (rule find_map_preserved) simp
  show ?thesis
    using Some fetch_trade_Some [OF Some] eq
    by (auto simp: log_trade_result_unfold fetch_trade_def split: outcome.splits option.splits)
qed

lemma save_example_store:
  "0 < lot_size \<Longrightarrow>
   snd (save_trade (empty_db 0) ''u1'' entry_price take_profit stop_loss lot_size 1000 trade_type
          ''XAU/USD'' None None None None)
   = \<lparr>users = [(''u1'', ''u1'')],
      trade_tracker =
        [\<lparr>tt_id = 1, tt_user_id = ''u1'', tt_entry_price = entry_price,
          tt_take_profit = take_profit, tt_stop_loss = stop_loss, tt_lot_size = lot_size,
          tt_balance = 1000, tt_trade_type = trade_type, tt_currency_pair = ''XAU/USD'',
          tt_timeframe = None, tt_trade_style = None, tt_strategy = None,
          tt_risk_reward_ratio = risk_reward entry_price take_profit stop_loss trade_type,
          tt_notes = None, tt_timestamp = 0, tt_status = OPEN\<rparr>],
      trade_results = [], risk_monitor = [], trade_seq = 1, result_seq = 0, clock = 0\<rparr>"
  by (simp add: save_trade_accepted empty_db_def)

subsection \<open>Binary64 rounding\<close>

text \<open>
  The exponent brackets its argument, and rounding moves a number by at most half the
  spacing at its exponent.
\<close>

lemma round_half_even_near: "\<bar>of_int (round_half_even y) - y\<bar> \<le> 1 / 2"
  unfolding round_half_even_def Let_def by (auto simp: abs_le_iff)

lemma pow2_pos: "0 < pow2 e"
  by (simp add: pow2_def)

lemma exponent_of_bounds:
  assumes "0 < x"
  shows "pow2 (exponent_of x) \<le> x \<and> x < pow2 (exponent_of x + 1)"
proof (cases "1 \<le> x")
  case True
  let ?n = "\<lfloor>x\<rfloor>"
  have n: "0 < ?n" using True by simp
  have b: "2 ^ nat (bitlen ?n - 1) \<le> ?n \<and> ?n < 2 ^ nat (bitlen ?n)"
    using bitlen_bounds [OF n] .
  have k: "1 \<le> bitlen ?n" using n by (simp add: bitlen_def floorlog_def)
  have lo: "(2::real) ^ nat (bitlen ?n - 1) \<le> of_int ?n"
    using b by (metis of_int_le_iff of_int_numeral of_int_power)
  have "?n + 1 \<le> 2 ^ nat (bitlen ?n)" using b by simp
  then have hi: "of_int (?n + 1) \<le> (2::real) ^ nat (bitlen ?n)"
    by (metis of_int_le_iff of_int_numeral of_int_power)
  have "x < of_int (?n + 1)" by linarith
  with hi have xhi: "x < 2 ^ nat (bitlen ?n)" by linarith
  have xlo: "2 ^ nat (bitlen ?n - 1) \<le> x"
    using lo of_int_floor_le [of x] by linarith
  have "bitlen ?n - 1 + 1 = bitlen ?n" by simp
  with xlo xhi True k show ?thesis
    by (simp add: exponent_of_def pow2_def)
next
  case False
  let ?m = "\<lceil>1 / x\<rceil>"
  have y: "1 < 1 / x" using False assms by simp
  then have m: "0 < ?m - 1" by linarith
  have b: "2 ^ nat (bitlen (?m - 1) - 1) \<le> ?m - 1 \<and> ?m - 1 < 2 ^ nat (bitlen (?m - 1))"
    using bitlen_bounds [OF m] .
  have k: "1 \<le> bitlen (?m - 1)" using m by (simp add: bitlen_def floorlog_def)
  have "?m \<le> 2 ^ nat (bitlen (?m - 1))" using b by simp
  then have "of_int ?m \<le> (2::real) ^ nat (bitlen (?m - 1))"
    by (metis of_int_le_iff of_int_numeral of_int_power)
  then have up: "1 / x \<le> 2 ^ nat (bitlen (?m - 1))"
    using le_of_int_ceiling [of "1 / x"] by linarith
  have "(2::real) ^ nat (bitlen (?m - 1) - 1) \<le> of_int (?m - 1)"
    using b by (metis of_int_le_iff of_int_numeral of_int_power)
  moreover have "of_int (?m - 1) < 1 / x" by linarith
  ultimately have down: "(2::real) ^ nat (bitlen (?m - 1) - 1) < 1 / x" by linarith
  have lo: "1 / 2 ^ nat (bitlen (?m - 1)) \<le> x"
    using up assms by (simp add: field_simps)
  have hi: "x < 1 / 2 ^ nat (bitlen (?m - 1) - 1)"
    using down assms by (simp add: field_simps)
  have e: "exponent_of x = - bitlen (?m - 1)" using False by (simp add: exponent_of_def)
  show ?thesis
  proof (cases "bitlen (?m - 1) = 1")
    case True
    then show ?thesis using lo hi e by (simp add: pow2_def)
  next
    case False
    then have "1 < bitlen (?m - 1)" using k by simp
    then have "nat (- (1 - bitlen (?m - 1))) = nat (bitlen (?m - 1) - 1)" by simp
    then show ?thesis using lo hi e \<open>1 < bitlen (?m - 1)\<close> by (simp add: pow2_def)
  qed
qed

lemma round_to_double_near:
  assumes "x \<noteq> 0"
  shows "\<bar>round_to_double x - x\<bar> \<le> pow2 (max (exponent_of \<bar>x\<bar>) (- 1022) - 52) / 2"
proof -
  let ?u = "pow2 (max (exponent_of \<bar>x\<bar>) (- 1022) - 52)"
  let ?n = "round_half_even (\<bar>x\<bar> / ?u)"
  have u: "0 < ?u" by (rule pow2_pos)
  have "round_to_double x - x = sgn x * (of_int ?n * ?u - \<bar>x\<bar>)"
    using assms by (simp add: round_to_double_def Let_def algebra_simps mult_sgn_abs abs_mult_sgn)
  then have "\<bar>round_to_double x - x\<bar> = \<bar>of_int ?n * ?u - \<bar>x\<bar>\<bar>"
    using assms by (simp add: abs_mult abs_sgn_eq)
  also have "of_int ?n * ?u - \<bar>x\<bar> = ?u * (of_int ?n - \<bar>x\<bar> / ?u)"
    using u by (simp add: algebra_simps)
  also have "\<bar>?u * (of_int ?n - \<bar>x\<bar> / ?u)\<bar> = ?u * \<bar>of_int ?n - \<bar>x\<bar> / ?u\<bar>"
    using u by (simp add: abs_mult)
  also have "\<dots> \<le> ?u * (1 / 2)"
    using u round_half_even_near [of "\<bar>x\<bar> / ?u"] by (intro mult_left_mono) simp_all
  finally show ?thesis by simp
qed

lemmas float_eval = risk_reward_def truthy_def float_sub_def to_float_def round_to_double_def
  exponent_of_def pow2_def bitlen_def compute_floorlog round_half_even_def format_2f_def
  str_nat.simps digit_char_def Let_def

lemma risk_reward_example: "risk_reward 2000 (Some 2010) (Some 1995) BUY = Some ''1:2.00''"
  by (simp add: float_eval)

lemma risk_reward_sell_example: "risk_reward 2000 (Some 1990) (Some 2005) SELL = Some ''1:2.00''"
  by (simp add: float_eval)

lemma risk_reward_rounded_example: "risk_reward 1000 (Some 1203) (Some 800) BUY = Some ''1:1.01''"
  by (simp add: float_eval)

subsection \<open>save_trade\<close>

text \<open>
  C7: every call of \<open>save_trade\<close> with a lot size that is zero or negative answers with the
  lot-size error dictionary and leaves the store as it was: no trade row and no user row
  is written.
\<close>

theorem save_trade_rejects_nonpositive_lot:
  "lot_size \<le> 0 \<Longrightarrow>
     save_trade d user_id entry_price take_profit stop_loss lot_size balance trade_type
       currency_pair timeframe trade_style strategy notes = (LotSizeError lot_size, d)"
  by (simp add: save_trade_def)

theorem save_trade_rejects_nonpositive_lot_witness:
  "(0::real) \<le> 0 \<and>
   save_trade (empty_db 0) ''u1'' 2000 (Some 2010) (Some 1995) 0 1000 BUY ''XAU/USD''
     None None None None = (LotSizeError 0, empty_db 0)"
  using save_trade_rejects_nonpositive_lot [of 0 "empty_db 0" "''u1''" 2000 "Some 2010" "Some 1995"
      1000 BUY "''XAU/USD''" None None None None]
  by simp

text \<open>
  C6, as the code has it: when take-profit, stop-loss and entry price are all given and
  none of them is zero, the ratio stored with the trade (and returned) is computed from
  the absolute distances, side by side as the claim lists them, in float arithmetic:
  \<open>1:\<close> followed by the float quotient of profit distance and risk distance, printed to
  two decimals, when the risk distance is positive, and absent otherwise.  Entry 2000,
  take-profit 2010, stop-loss 1995, \<open>BUY\<close> stores \<open>1:2.00\<close>.
\<close>

theorem save_trade_risk_reward_ratio:
  "0 < lot_size \<Longrightarrow> tp \<noteq> 0 \<Longrightarrow> sl \<noteq> 0 \<Longrightarrow> entry_price \<noteq> 0 \<Longrightarrow>
     (let profit_distance = (case trade_type of BUY \<Rightarrow> float_abs (float_sub tp entry_price)
                             | SELL \<Rightarrow> float_abs (float_sub entry_price tp));
          risk_distance = (case trade_type of BUY \<Rightarrow> float_abs (float_sub entry_price sl)
                           | SELL \<Rightarrow> float_abs (float_sub sl entry_price));
          expected = (if float_gt_zero risk_distance
                      then Some (''1:'' @ float_format_2f (float_div profit_distance risk_distance))
                      else None);
          (payload, d') = save_trade d user_id entry_price (Some tp) (Some sl) lot_size balance
                            trade_type currency_pair timeframe trade_style strategy notes
      in (\<exists>t p. trade_tracker d' = trade_tracker d @ [t] \<and> tt_risk_reward_ratio t = expected
                \<and> payload = Saved p \<and> sv_risk_reward_ratio p = expected))
     \<and> tt_risk_reward_ratio (last (trade_tracker (snd (save_trade d user_id 2000 (Some 2010)
           (Some 1995) lot_size balance BUY currency_pair timeframe trade_style strategy notes))))
         = Some ''1:2.00''"
  by (cases trade_type)
     (simp_all add: save_trade_accepted risk_reward_example, simp_all add: risk_reward_def truthy_def)

text \<open>
  At entry 1000, take-profit 1203, stop-loss 800, \<open>BUY\<close>, the quotient of the reals is
  1.015 and the float quotient lies just below it: the ratio stored is \<open>1:1.01\<close>.
\<close>

theorem save_trade_risk_reward_ratio_witness:
  "(0::real) < 1 \<and> (1203::real) \<noteq> 0 \<and> (800::real) \<noteq> 0 \<and> (1000::real) \<noteq> 0 \<and>
   fst (save_trade (empty_db 0) ''u1'' 1000 (Some 1203) (Some 800) 1 1000 BUY ''XAU/USD''
          (Some ''1h'') None (Some ''smc'') None)
     = Saved \<lparr>sv_trade_id = 1, sv_status = OPEN, sv_entry_price = 1000,
        sv_take_profit = Some 1203, sv_stop_loss = Some 800, sv_lot_size = 1,
        sv_balance = 1000, sv_trade_type = BUY, sv_currency_pair = ''XAU/USD'',
        sv_timeframe = Some ''1h'', sv_trade_style = None, sv_strategy = Some ''smc'',
        sv_risk_reward_ratio = Some ''1:1.01'', sv_potential_profit = Some 20300,
        sv_potential_loss = Some 20000, sv_notes = None\<rparr> \<and>
   map tt_risk_reward_ratio (trade_tracker (snd (save_trade (empty_db 0) ''u1'' 1000 (Some 1203)
          (Some 800) 1 1000 BUY ''XAU/USD'' (Some ''1h'') None (Some ''smc'') None)))
     = [Some ''1:1.01''] \<and>
   map tt_risk_reward_ratio (trade_tracker (snd (save_trade (empty_db 0) ''u1'' 2000 (Some 2010)
          (Some 1995) 1 1000 BUY ''XAU/USD'' (Some ''1h'') None (Some ''smc'') None)))
     = [Some ''1:2.00'']"
  using save_trade_risk_reward_ratio [of 1 1203 800 1000 BUY "empty_db 0" "''u1''" 1000
      "''XAU/USD''" "Some ''1h''" None "Some ''smc''" None]
  by (simp add: save_trade_accepted risk_reward_example risk_reward_rounded_example
      potential_profit_def potential_loss_def truthy_def empty_db_def)

text \<open>
  The claim as written fails where a given price is zero: a \<open>SELL\<close> at 5 with take-profit
  0 and stop-loss 10 has both targets present and a risk distance of 5, and the claim
  asks for \<open>1:1.00\<close>; the trade is stored without a ratio.
\<close>

theorem risk_reward_zero_take_profit_counterexample:
  "fst (save_trade (empty_db 0) ''u1'' 5 (Some 0) (Some 10) 1 1000 SELL ''XAU/USD'' None None None None)
     = Saved \<lparr>sv_trade_id = 1, sv_status = OPEN, sv_entry_price = 5,
        sv_take_profit = Some 0, sv_stop_loss = Some 10, sv_lot_size = 1,
        sv_balance = 1000, sv_trade_type = SELL, sv_currency_pair = ''XAU/USD'',
        sv_timeframe = None, sv_trade_style = None, sv_strategy = None,
        sv_risk_reward_ratio = None, sv_potential_profit = None,
        sv_potential_loss = Some 500, sv_notes = None\<rparr> \<and>
   map tt_risk_reward_ratio (trade_tracker (snd (save_trade (empty_db 0) ''u1'' 5 (Some 0)
          (Some 10) 1 1000 SELL ''XAU/USD'' None None None None))) = [None] \<and>
   (0::real) < \<bar>10 - 5\<bar> \<and>
   Some (''1:'' @ format_2f (\<bar>5 - 0\<bar> / \<bar>10 - 5\<bar>)) = Some ''1:1.00''"
  by (simp add: save_trade_accepted risk_reward_def potential_profit_def potential_loss_def
      truthy_def empty_db_def format_2f_def round_half_even_def str_nat.simps digit_char_def)

subsection \<open>log_trade_result\<close>

text \<open>
  C5: in every store the tools produce, a trade has at most one result and an open trade
  has none.  A call of \<open>log_trade_result\<close> that records a result found the trade open and
  leaves it closed with exactly one result; a second call on the same trade, whatever its
  outcome and notes, answers with the already-closed warning, returns the store as it is
  and commits nothing.
\<close>

theorem one_result_per_trade:
  "reachable d \<Longrightarrow>
     list_all (\<lambda>t. length (results_of d (tt_id t)) \<le> 1
                  \<and> (tt_status t = OPEN \<longrightarrow> results_of d (tt_id t) = [])) (trade_tracker d)
     \<and> (log_trade_result d user_id trade_id res notes = (Logged p, d') \<longrightarrow>
          (\<exists>t. fetch_trade d trade_id user_id = Some t \<and> tt_status t = OPEN)
          \<and> (\<exists>t'. fetch_trade d' trade_id user_id = Some t' \<and> tt_status t' = CLOSED)
          \<and> length (results_of d' trade_id) = 1
          \<and> log_trade_result d' user_id trade_id res' notes' = (AlreadyClosed trade_id, d')
          \<and> commit_log (snd (log_trade_result_conn (connect d') user_id trade_id res' notes')) = [])"
proof (intro conjI impI)
  assume r: "reachable d"
  then have inv: "ledger_inv d" by (rule reachable_ledger_inv)
  show "list_all (\<lambda>t. length (results_of d (tt_id t)) \<le> 1
                  \<and> (tt_status t = OPEN \<longrightarrow> results_of d (tt_id t) = [])) (trade_tracker d)"
    unfolding list_all_iff
  proof (intro ballI conjI impI)
    fix t assume t: "t \<in> set (trade_tracker d)"
    show "length (results_of d (tt_id t)) \<le> 1"
    proof (cases "results_of d (tt_id t)")
      case Nil
      then show ?thesis by simp
    next
      case (Cons x xs)
      then have "x \<in> set (results_of d (tt_id t))" by simp
      then have "x \<in> set (trade_results d) \<and> tr_trade_id x = tt_id t"
        by (simp add: results_of_def)
      then show ?thesis using inv by (auto simp: ledger_inv_def list_all_iff)
    qed
    assume "tt_status t = OPEN"
    then show "results_of d (tt_id t) = []"
      using inv t by (auto simp: ledger_inv_def list_all_iff)
  qed
next
  assume r: "reachable d" and lg: "log_trade_result d user_id trade_id res notes = (Logged p, d')"
  then have inv: "ledger_inv d" by (simp add: reachable_ledger_inv)
  from lg obtain t exit_price profit_loss where
    t: "fetch_trade d trade_id user_id = Some t" and op: "tt_status t \<noteq> CLOSED"
    and pl: "exit_and_profit_loss t res = Some (exit_price, profit_loss)"
    by (auto simp: log_trade_result_unfold split: option.splits if_splits outcome.splits)
  note found = fetch_trade_Some [OF t]
  have d': "d' = snd (log_trade_result d user_id trade_id res notes)" using lg by simp
  show "\<exists>t. fetch_trade d trade_id user_id = Some t \<and> tt_status t = OPEN"
    using t op by (cases "tt_status t") auto
  have after: "fetch_trade d' trade_id user_id = Some (t\<lparr>tt_status := CLOSED\<rparr>)"
    using fetch_trade_after_close [of d user_id trade_id res "notes"] lg t by simp
  then show "\<exists>t'. fetch_trade d' trade_id user_id = Some t' \<and> tt_status t' = CLOSED"
    by simp
  have none: "results_of d trade_id = []"
    using inv found op by (auto simp: ledger_inv_def list_all_iff)
  show "length (results_of d' trade_id) = 1"
    using none by (simp add: d' results_of_def log_trade_result_store [OF t op pl])
  show "log_trade_result d' user_id trade_id res' notes' = (AlreadyClosed trade_id, d')"
    using after by (simp add: log_trade_result_unfold)
  show "commit_log (snd (log_trade_result_conn (connect d') user_id trade_id res' notes')) = []"
    using after by (simp add: log_trade_result_conn_def connect_def)
qed

theorem one_result_per_trade_witness:
  "reachable (snd (save_trade (empty_db 0) ''u1'' 2000 (Some 2010) (Some 1995) (3 / 100) 1000 BUY
                     ''XAU/USD'' None None None None))
   \<and> fst (log_trade_result (snd (save_trade (empty_db 0) ''u1'' 2000 (Some 2010) (Some 1995) (3 / 100)
                1000 BUY ''XAU/USD'' None None None None)) ''u1'' 1 WIN None)
       = Logged \<lparr>lr_result_id = 1, lr_trade_id = 1, lr_result = WIN, lr_profit_loss = 30,
           lr_previous_balance = 1000, lr_new_balance = 1030, lr_entry_price = 2000,
           lr_exit_price = 2010, lr_lot_size = 3 / 100, lr_status = CLOSED, lr_notes = None\<rparr>
   \<and> fst (log_trade_result
             (snd (log_trade_result (snd (save_trade (empty_db 0) ''u1'' 2000 (Some 2010) (Some 1995)
                (3 / 100) 1000 BUY ''XAU/USD'' None None None None)) ''u1'' 1 WIN None))
             ''u1'' 1 LOSS None) = AlreadyClosed 1
   \<and> length (results_of
        (snd (log_trade_result (snd (save_trade (empty_db 0) ''u1'' 2000 (Some 2010) (Some 1995)
                (3 / 100) 1000 BUY ''XAU/USD'' None None None None)) ''u1'' 1 WIN None)) 1) = 1"
proof -
  let ?d = "snd (save_trade (empty_db 0) ''u1'' 2000 (Some 2010) (Some 1995) (3 / 100) 1000 BUY
                     ''XAU/USD'' None None None None)"
  let ?p = "\<lparr>lr_result_id = 1, lr_trade_id = 1, lr_result = WIN, lr_profit_loss = 30,
           lr_previous_balance = 1000, lr_new_balance = 1030, lr_entry_price = 2000,
           lr_exit_price = 2010, lr_lot_size = 3 / 100, lr_status = CLOSED, lr_notes = None\<rparr>"
  have r: "reachable ?d" by (rule reachable_save [OF reachable_empty])
  have f: "fst (log_trade_result ?d ''u1'' 1 WIN None) = Logged ?p"
    by (simp add: save_trade_accepted log_trade_result_unfold fetch_trade_def empty_db_def
        exit_and_profit_loss_def truthy_def)
  then have l: "log_trade_result ?d ''u1'' 1 WIN None
                  = (Logged ?p, snd (log_trade_result ?d ''u1'' 1 WIN None))"
    by (metis prod.collapse)
  show ?thesis
    using one_result_per_trade [OF r, of "''u1''" 1 WIN None ?p
        "snd (log_trade_result ?d ''u1'' 1 WIN None)" LOSS None] r f l
    by simp
qed

text \<open>
  C4, as the code has it: a call that records a result appends one result row carrying the
  profit or loss it returns, and the returned new balance is the trade's balance snapshot
  plus that amount.  For \<open>WIN\<close> the amount is the side-adjusted move to the take-profit
  (\<open>BUY\<close>: TP - entry, \<open>SELL\<close>: entry - TP) times lot size times 100; it is non-negative
  when the lot size is non-negative and the take-profit lies on the profit side of the
  entry.  For \<open>LOSS\<close> it is minus the absolute value of the side-adjusted move to the
  stop-loss times lot size times 100, and never positive.
\<close>

theorem log_trade_result_profit_loss:
  "log_trade_result d user_id trade_id res notes = (Logged p, d') \<Longrightarrow>
     \<exists>t r. fetch_trade d trade_id user_id = Some t
        \<and> trade_results d' = trade_results d @ [r]
        \<and> tr_trade_id r = trade_id \<and> tr_result r = res \<and> tr_profit_loss r = lr_profit_loss p
        \<and> lr_new_balance p = tt_balance t + lr_profit_loss p
        \<and> (case res of
             WIN \<Rightarrow>
               (\<exists>tp. tt_take_profit t = Some tp
                  \<and> lr_profit_loss p
                      = (case tt_trade_type t of BUY \<Rightarrow> tp - tt_entry_price t
                         | SELL \<Rightarrow> tt_entry_price t - tp) * (tt_lot_size t * 100)
                  \<and> (0 \<le> tt_lot_size t
                       \<and> (case tt_trade_type t of BUY \<Rightarrow> tt_entry_price t \<le> tp
                           | SELL \<Rightarrow> tp \<le> tt_entry_price t)
                      \<longrightarrow> 0 \<le> lr_profit_loss p))
           | LOSS \<Rightarrow>
               (\<exists>sl. tt_stop_loss t = Some sl
                  \<and> lr_profit_loss p
                      = - \<bar>(case tt_trade_type t of BUY \<Rightarrow> tt_entry_price t - sl
                            | SELL \<Rightarrow> sl - tt_entry_price t) * (tt_lot_size t * 100)\<bar>
                  \<and> lr_profit_loss p \<le> 0))"
proof -
  assume lg: "log_trade_result d user_id trade_id res notes = (Logged p, d')"
  then obtain t exit_price profit_loss where
    t: "fetch_trade d trade_id user_id = Some t" and op: "tt_status t \<noteq> CLOSED"
    and pl: "exit_and_profit_loss t res = Some (exit_price, profit_loss)"
    by (auto simp: log_trade_result_unfold split: option.splits if_splits outcome.splits)
  have p: "lr_profit_loss p = profit_loss" "lr_new_balance p = tt_balance t + profit_loss"
    using lg t op pl by (auto simp: log_trade_result_unfold)
  have d': "d' = snd (log_trade_result d user_id trade_id res notes)" using lg by simp
  let ?r = "\<lparr>tr_id = result_seq d + 1, tr_user_id = user_id, tr_trade_id = trade_id,
             tr_result = res, tr_profit_loss = profit_loss, tr_notes = notes,
             tr_timestamp = clock d\<rparr>"
  have rows: "trade_results d' = trade_results d @ [?r]"
    unfolding d' by (rule log_trade_result_store(2) [OF t op pl])
  have amount: "case res of
             WIN \<Rightarrow>
               (\<exists>tp. tt_take_profit t = Some tp
                  \<and> profit_loss
                      = (case tt_trade_type t of BUY \<Rightarrow> tp - tt_entry_price t
                         | SELL \<Rightarrow> tt_entry_price t - tp) * (tt_lot_size t * 100)
                  \<and> (0 \<le> tt_lot_size t
                       \<and> (case tt_trade_type t of BUY \<Rightarrow> tt_entry_price t \<le> tp
                           | SELL \<Rightarrow> tp \<le> tt_entry_price t)
                      \<longrightarrow> 0 \<le> profit_loss))
           | LOSS \<Rightarrow>
               (\<exists>sl. tt_stop_loss t = Some sl
                  \<and> profit_loss
                      = - \<bar>(case tt_trade_type t of BUY \<Rightarrow> tt_entry_price t - sl
                            | SELL \<Rightarrow> sl - tt_entry_price t) * (tt_lot_size t * 100)\<bar>
                  \<and> profit_loss \<le> 0)"
    using pl
    by (cases res; cases "tt_trade_type t")
       (auto simp: exit_and_profit_loss_def truthy_def Let_def split: option.splits if_splits)
  show ?thesis
  proof (intro exI [of _ t] exI [of _ ?r] conjI)
    show "fetch_trade d trade_id user_id = Some t" by (rule t)
    show "trade_results d' = trade_results d @ [?r]" by (rule rows)
    show "tr_trade_id ?r = trade_id" "tr_result ?r = res" by simp_all
    show "tr_profit_loss ?r = lr_profit_loss p" using p by simp
    show "lr_new_balance p = tt_balance t + lr_profit_loss p" using p by simp
    show "case res of
             WIN \<Rightarrow>
               (\<exists>tp. tt_take_profit t = Some tp
                  \<and> lr_profit_loss p
                      = (case tt_trade_type t of BUY \<Rightarrow> tp - tt_entry_price t
                         | SELL \<Rightarrow> tt_entry_price t - tp) * (tt_lot_size t * 100)
                  \<and> (0 \<le> tt_lot_size t
                       \<and> (case tt_trade_type t of BUY \<Rightarrow> tt_entry_price t \<le> tp
                           | SELL \<Rightarrow> tp \<le> tt_entry_price t)
                      \<longrightarrow> 0 \<le> lr_profit_loss p))
           | LOSS \<Rightarrow>
               (\<exists>sl. tt_stop_loss t = Some sl
                  \<and> lr_profit_loss p
                      = - \<bar>(case tt_trade_type t of BUY \<Rightarrow> tt_entry_price t - sl
                            | SELL \<Rightarrow> sl - tt_entry_price t) * (tt_lot_size t * 100)\<bar>
                  \<and> lr_profit_loss p \<le> 0)"
      using amount unfolding p(1) .
  qed
qed

theorem log_trade_result_profit_loss_witness:
  "fst (log_trade_result (snd (save_trade (empty_db 0) ''u1'' 2000 (Some 2010) (Some 1995) (3 / 100)
                1000 BUY ''XAU/USD'' None None None None)) ''u1'' 1 WIN None)
     = Logged \<lparr>lr_result_id = 1, lr_trade_id = 1, lr_result = WIN, lr_profit_loss = 30,
         lr_previous_balance = 1000, lr_new_balance = 1030, lr_entry_price = 2000,
         lr_exit_price = 2010, lr_lot_size = 3 / 100, lr_status = CLOSED, lr_notes = None\<rparr>
   \<and> map tr_profit_loss (trade_results (snd (log_trade_result (snd (save_trade (empty_db 0) ''u1''
          2000 (Some 2010) (Some 1995) (3 / 100) 1000 BUY ''XAU/USD'' None None None None))
          ''u1'' 1 WIN None))) = [30]
   \<and> fst (log_trade_result (snd (save_trade (empty_db 0) ''u1'' 2000 (Some 2010) (Some 1995) (3 / 100)
                1000 BUY ''XAU/USD'' None None None None)) ''u1'' 1 LOSS None)
     = Logged \<lparr>lr_result_id = 1, lr_trade_id = 1, lr_result = LOSS, lr_profit_loss = - 15,
         lr_previous_balance = 1000, lr_new_balance = 985, lr_entry_price = 2000,
         lr_exit_price = 1995, lr_lot_size = 3 / 100, lr_status = CLOSED, lr_notes = None\<rparr>
   \<and> map tr_profit_loss (trade_results (snd (log_trade_result (snd (save_trade (empty_db 0) ''u1''
          2000 (Some 2010) (Some 1995) (3 / 100) 1000 BUY ''XAU/USD'' None None None None))
          ''u1'' 1 LOSS None))) = [- 15]"
proof -
  let ?d = "snd (save_trade (empty_db 0) ''u1'' 2000 (Some 2010) (Some 1995) (3 / 100) 1000 BUY
                   ''XAU/USD'' None None None None)"
  let ?w = "\<lparr>lr_result_id = 1, lr_trade_id = 1, lr_result = WIN, lr_profit_loss = 30,
         lr_previous_balance = 1000, lr_new_balance = 1030, lr_entry_price = 2000,
         lr_exit_price = 2010, lr_lot_size = 3 / 100, lr_status = CLOSED, lr_notes = None\<rparr>"
  let ?l = "\<lparr>lr_result_id = 1, lr_trade_id = 1, lr_result = LOSS, lr_profit_loss = - 15,
         lr_previous_balance = 1000, lr_new_balance = 985, lr_entry_price = 2000,
         lr_exit_price = 1995, lr_lot_size = 3 / 100, lr_status = CLOSED, lr_notes = None\<rparr>"
  have w: "fst (log_trade_result ?d ''u1'' 1 WIN None) = Logged ?w"
    by (simp add: save_example_store log_trade_result_unfold fetch_trade_def
        exit_and_profit_loss_def truthy_def)
  have l: "fst (log_trade_result ?d ''u1'' 1 LOSS None) = Logged ?l"
    by (simp add: save_example_store log_trade_result_unfold fetch_trade_def
        exit_and_profit_loss_def truthy_def)
  have w': "log_trade_result ?d ''u1'' 1 WIN None = (Logged ?w, snd (log_trade_result ?d ''u1'' 1 WIN None))"
    using w by (metis prod.collapse)
  have l': "log_trade_result ?d ''u1'' 1 LOSS None = (Logged ?l, snd (log_trade_result ?d ''u1'' 1 LOSS None))"
    using l by (metis prod.collapse)
  have e: "trade_results ?d = []" by (simp add: save_example_store)
  show ?thesis
    using log_trade_result_profit_loss [OF w'] log_trade_result_profit_loss [OF l'] w l e
    by auto
qed

text \<open>
  The claim as written (a \<open>WIN\<close> amount is always non-negative) fails for a take-profit on
  the wrong side of the entry: a \<open>BUY\<close> at 2000 with take-profit 1990 and lot 0.03, logged
  as \<open>WIN\<close>, records -30.
\<close>

theorem win_profit_negative_counterexample:
  "fst (log_trade_result (snd (save_trade (empty_db 0) ''u1'' 2000 (Some 1990) (Some 2005) (3 / 100)
                1000 BUY ''XAU/USD'' None None None None)) ''u1'' 1 WIN None)
     = Logged \<lparr>lr_result_id = 1, lr_trade_id = 1, lr_result = WIN, lr_profit_loss = - 30,
         lr_previous_balance = 1000, lr_new_balance = 970, lr_entry_price = 2000,
         lr_exit_price = 1990, lr_lot_size = 3 / 100, lr_status = CLOSED, lr_notes = None\<rparr>
   \<and> map tr_profit_loss (trade_results (snd (log_trade_result (snd (save_trade (empty_db 0) ''u1''
          2000 (Some 1990) (Some 2005) (3 / 100) 1000 BUY ''XAU/USD'' None None None None))
          ''u1'' 1 WIN None))) = [- 30]
   \<and> (- 30 :: real) < 0"
  by (simp add: save_example_store log_trade_result_unfold fetch_trade_def
      exit_and_profit_loss_def truthy_def)

text \<open>
  C10: a price of exactly 0 is treated as absent.  \<open>save_trade\<close> with take-profit 0,
  stop-loss 0 or entry price 0 (and a positive lot size) stores and returns no ratio, no
  potential profit when the take-profit or the entry is 0, and no potential loss when the
  stop-loss or the entry is 0.  \<open>log_trade_result\<close> on an open trade whose take-profit is 0
  answers a \<open>WIN\<close> with the no-take-profit error, and on one whose stop-loss is 0 answers a
  \<open>LOSS\<close> with the no-stop-loss error; the store is unchanged.
\<close>

theorem zero_price_counts_as_absent:
  "(0 < lot_size \<and> (take_profit = Some 0 \<or> stop_loss = Some 0 \<or> entry_price = 0) \<longrightarrow>
      (\<exists>p d'. save_trade d user_id entry_price take_profit stop_loss lot_size balance trade_type
                 currency_pair timeframe trade_style strategy notes = (Saved p, d')
         \<and> sv_risk_reward_ratio p = None
         \<and> tt_risk_reward_ratio (last (trade_tracker d')) = None
         \<and> (take_profit = Some 0 \<or> entry_price = 0 \<longrightarrow> sv_potential_profit p = None)
         \<and> (stop_loss = Some 0 \<or> entry_price = 0 \<longrightarrow> sv_potential_loss p = None)))
   \<and> (fetch_trade s trade_id uid = Some t \<and> tt_status t = OPEN \<and> tt_take_profit t = Some 0 \<longrightarrow>
        log_trade_result s uid trade_id WIN n = (NoTakeProfit trade_id, s))
   \<and> (fetch_trade s trade_id uid = Some t \<and> tt_status t = OPEN \<and> tt_stop_loss t = Some 0 \<longrightarrow>
        log_trade_result s uid trade_id LOSS n = (NoStopLoss trade_id, s))"
proof (intro conjI impI)
  assume a: "0 < lot_size \<and> (take_profit = Some 0 \<or> stop_loss = Some 0 \<or> entry_price = 0)"
  then have rr: "risk_reward entry_price take_profit stop_loss trade_type = None"
    by (auto simp: risk_reward_def truthy_def)
  have pp: "take_profit = Some 0 \<or> entry_price = 0 \<longrightarrow>
              potential_profit entry_price take_profit lot_size = None"
    by (auto simp: potential_profit_def truthy_def)
  have pl: "stop_loss = Some 0 \<or> entry_price = 0 \<longrightarrow>
              potential_loss entry_price stop_loss lot_size = None"
    by (auto simp: potential_loss_def truthy_def)
  from a have pos: "0 < lot_size" by simp
  show "\<exists>p d'. save_trade d user_id entry_price take_profit stop_loss lot_size balance trade_type
                 currency_pair timeframe trade_style strategy notes = (Saved p, d')
         \<and> sv_risk_reward_ratio p = None
         \<and> tt_risk_reward_ratio (last (trade_tracker d')) = None
         \<and> (take_profit = Some 0 \<or> entry_price = 0 \<longrightarrow> sv_potential_profit p = None)
         \<and> (stop_loss = Some 0 \<or> entry_price = 0 \<longrightarrow> sv_potential_loss p = None)"
    using rr pp pl by (simp add: save_trade_accepted [OF pos])
next
  assume "fetch_trade s trade_id uid = Some t \<and> tt_status t = OPEN \<and> tt_take_profit t = Some 0"
  then show "log_trade_result s uid trade_id WIN n = (NoTakeProfit trade_id, s)"
    by (simp add: log_trade_result_unfold exit_and_profit_loss_def truthy_def)
next
  assume "fetch_trade s trade_id uid = Some t \<and> tt_status t = OPEN \<and> tt_stop_loss t = Some 0"
  then show "log_trade_result s uid trade_id LOSS n = (NoStopLoss trade_id, s)"
    by (simp add: log_trade_result_unfold exit_and_profit_loss_def truthy_def)
qed

theorem zero_price_counts_as_absent_witness:
  "fst (save_trade (empty_db 0) ''u1'' 5 (Some 0) (Some 0) 1 1000 BUY ''XAU/USD'' None None None None)
     = Saved \<lparr>sv_trade_id = 1, sv_status = OPEN, sv_entry_price = 5,
        sv_take_profit = Some 0, sv_stop_loss = Some 0, sv_lot_size = 1,
        sv_balance = 1000, sv_trade_type = BUY, sv_currency_pair = ''XAU/USD'',
        sv_timeframe = None, sv_trade_style = None, sv_strategy = None,
        sv_risk_reward_ratio = None, sv_potential_profit = None,
        sv_potential_loss = None, sv_notes = None\<rparr>
   \<and> log_trade_result (snd (save_trade (empty_db 0) ''u1'' 5 (Some 0) (Some 0) 1 1000 BUY ''XAU/USD''
          None None None None)) ''u1'' 1 WIN None
       = (NoTakeProfit 1, snd (save_trade (empty_db 0) ''u1'' 5 (Some 0) (Some 0) 1 1000 BUY
            ''XAU/USD'' None None None None))
   \<and> log_trade_result (snd (save_trade (empty_db 0) ''u1'' 5 (Some 0) (Some 0) 1 1000 BUY ''XAU/USD''
          None None None None)) ''u1'' 1 LOSS None
       = (NoStopLoss 1, snd (save_trade (empty_db 0) ''u1'' 5 (Some 0) (Some 0) 1 1000 BUY
            ''XAU/USD'' None None None None))"
proof -
  let ?s = "snd (save_trade (empty_db 0) ''u1'' 5 (Some 0) (Some 0) 1 1000 BUY ''XAU/USD''
          None None None None)"
  let ?t = "\<lparr>tt_id = 1, tt_user_id = ''u1'', tt_entry_price = 5,
          tt_take_profit = Some 0, tt_stop_loss = Some 0, tt_lot_size = 1,
          tt_balance = 1000, tt_trade_type = BUY, tt_currency_pair = ''XAU/USD'',
          tt_timeframe = None, tt_trade_style = None, tt_strategy = None,
          tt_risk_reward_ratio = None,
          tt_notes = None, tt_timestamp = 0, tt_status = OPEN\<rparr>"
  have rr: "risk_reward 5 (Some 0) (Some 0) BUY = None"
    by (simp add: risk_reward_def truthy_def)
  have f: "fetch_trade ?s 1 ''u1'' = Some ?t"
    by (simp add: save_example_store fetch_trade_def rr)
  have h: "(0::real) < 1 \<and> (Some (0::real) = Some 0 \<or> Some (0::real) = Some 0 \<or> (5::real) = 0)"
    by simp
  have sv: "fst (save_trade (empty_db 0) ''u1'' 5 (Some 0) (Some 0) 1 1000 BUY ''XAU/USD''
                  None None None None)
     = Saved \<lparr>sv_trade_id = 1, sv_status = OPEN, sv_entry_price = 5,
        sv_take_profit = Some 0, sv_stop_loss = Some 0, sv_lot_size = 1,
        sv_balance = 1000, sv_trade_type = BUY, sv_currency_pair = ''XAU/USD'',
        sv_timeframe = None, sv_trade_style = None, sv_strategy = None,
        sv_risk_reward_ratio = None, sv_potential_profit = None,
        sv_potential_loss = None, sv_notes = None\<rparr>"
    by (simp add: save_trade_accepted rr potential_profit_def potential_loss_def truthy_def
        empty_db_def)
  show ?thesis
    using zero_price_counts_as_absent [of 1 "Some 0" "Some 0" 5 "empty_db 0" "''u1''" 1000 BUY
        "''XAU/USD''" None None None None ?s 1 "''u1''" ?t None] f h sv
    by simp
qed

text \<open>
  C3: the claim asks for the result row and the status change to become durable together.
  The tool commits after the insert and again after the update: on a trade opened at 2000
  with take-profit 2010, the first state it makes durable holds the result for trade 1
  while trade 1 is still \<open>OPEN\<close>.
\<close>

theorem two_commits_in_log_trade_result:
  "map (\<lambda>s. (map tr_trade_id (trade_results s), map tt_status (trade_tracker s)))
     (commit_log (snd (log_trade_result_conn
        (connect (snd (save_trade (empty_db 0) ''u1'' 2000 (Some 2010) (Some 1995) (3 / 100) 1000 BUY
                         ''XAU/USD'' None None None None)))
        ''u1'' 1 WIN None)))
   = [([1], [OPEN]), ([1], [CLOSED])]"
  by (simp add: save_example_store log_trade_result_conn_def connect_def commit_def
      insert_result_def update_status_closed_def fetch_trade_def exit_and_profit_loss_def
      truthy_def Let_def)

subsection \<open>get_trade_insights\<close>

lemma stats_loop_acc:
  "fst (foldl (\<lambda>(stats, wins, total_pl) (k, n, w, pl).
              (stats @ [\<lparr>gs_key = k, gs_total_trades = n, gs_wins = w,
                          gs_win_rate = round2 (if 0 < n then real w / real n * 100 else 0),
                          gs_total_pl = round2 pl\<rparr>], w, pl))
       (acc, wins, total_pl) perf) = acc @ map group_stats_of perf"
proof (induction perf arbitrary: acc wins total_pl)
  case Nil
  show ?case by simp
next
  case (Cons g perf)
  let ?F = "\<lambda>(stats, wins, total_pl) (k, n, w, pl).
              (stats @ [\<lparr>gs_key = k, gs_total_trades = n, gs_wins = w,
                          gs_win_rate = round2 (if 0 < n then real w / real n * 100 else 0),
                          gs_total_pl = round2 pl\<rparr>], w, pl)"
  obtain k n w pl where g: "g = (k, n, w, pl)" by (cases g) auto
  have step: "?F (acc, wins, total_pl) g = (acc @ [group_stats_of g], w, pl)"
    by (simp add: g group_stats_of_def)
  have "fst (foldl ?F (acc, wins, total_pl) (g # perf))
          = fst (foldl ?F (acc @ [group_stats_of g], w, pl) perf)"
    by (simp only: foldl_Cons step)
  also have "\<dots> = (acc @ [group_stats_of g]) @ map group_stats_of perf"
    by (rule Cons.IH)
  finally show ?case by (simp only: list.map append_assoc append_Cons append_Nil)
qed

lemma stats_loop_stats: "fst (stats_loop perf wins total_pl) = map group_stats_of perf"
  by (simp add: stats_loop_def stats_loop_acc)

lemma best_of_ranking: "best_of (map group_stats_of rank) = (case rank of [] \<Rightarrow> None | g # _ \<Rightarrow> Some (fst g))"
  by (cases rank) (auto simp: best_of_def group_stats_of_def split: prod.splits)

lemma group_by_keys: "map fst (group_by keyed) = remdups (map fst keyed)"
  by (simp add: group_by_def Let_def comp_def)

lemma distinct_map_sort_key:
  "distinct (map g (sort_key f xs)) = distinct (map g xs)"
proof -
  have "set (map g (sort_key f xs)) = set (map g xs)" by simp
  moreover have "length (map g (sort_key f xs)) = length (map g xs)" by simp
  ultimately show ?thesis by (metis card_distinct distinct_card)
qed

lemma rank_key_le: "rank_key a \<le> rank_key b \<Longrightarrow> ranks_before a b"
  by (cases a; cases b) (auto simp: rank_key_def ranks_before_def less_eq_prod_def)

lemma ranked_groups_sorted: "sorted_wrt ranks_before (ranked_groups keyed)"
proof -
  have "sorted (map rank_key (sort_key rank_key (group_by keyed)))" by (rule sorted_sort_key)
  then have "sorted_wrt (\<lambda>a b. rank_key a \<le> rank_key b) (sort_key rank_key (group_by keyed))"
    by (simp add: sorted_map)
  then show ?thesis
    unfolding ranked_groups_def by (rule sorted_wrt_mono_rel [rotated]) (simp add: rank_key_le)
qed

lemma ranked_groups_ranking: "ranking_of keyed (ranked_groups keyed)"
  unfolding ranking_of_def
proof (intro conjI)
  show "distinct (map fst (ranked_groups keyed))"
    by (simp add: ranked_groups_def distinct_map_sort_key group_by_keys)
  show "set (map fst (ranked_groups keyed)) = set (map fst keyed)"
    by (simp add: ranked_groups_def group_by_def Let_def image_image)
  show "list_all (\<lambda>(k, n, w, pl).
            n = length (filter (\<lambda>r. fst r = k) keyed)
            \<and> w = count_result WIN (map snd (filter (\<lambda>r. fst r = k) keyed))
            \<and> pl = sum_profit_loss (map snd (filter (\<lambda>r. fst r = k) keyed))) (ranked_groups keyed)"
    by (auto simp: list_all_iff ranked_groups_def group_by_def Let_def)
  show "sorted_wrt ranks_before (ranked_groups keyed)" by (rule ranked_groups_sorted)
qed


lemma timeframe_rows_candidates:
  "timeframe_rows d (fst (build_filters currency_pair timeframe strategy))
                    (snd (build_filters currency_pair timeframe strategy))
   = timeframe_candidates d currency_pair strategy"
  by (cases currency_pair; cases timeframe; cases strategy)
     (auto simp: timeframe_rows_def timeframe_candidates_def build_filters_def without_columns_def
       conditions_hold_def column_value_def matches_def truthy_str_def Let_def
       intro!: arg_cong [where f = concat] map_cong)


lemma strategy_rows_candidates:
  "strategy_rows d (fst (build_filters currency_pair timeframe strategy))
                   (snd (build_filters currency_pair timeframe strategy))
   = strategy_candidates d currency_pair timeframe"
  by (cases currency_pair; cases timeframe; cases strategy)
     (auto simp: strategy_rows_def strategy_candidates_def build_filters_def without_columns_def
       conditions_hold_def column_value_def matches_def truthy_str_def Let_def
       intro!: arg_cong [where f = concat] map_cong)

lemma combined_rows_candidates:
  "combined_rows d (fst (build_filters currency_pair timeframe strategy))
                   (snd (build_filters currency_pair timeframe strategy))
   = combined_candidates d currency_pair"
  by (cases currency_pair; cases timeframe; cases strategy)
     (auto simp: combined_rows_def combined_candidates_def build_filters_def without_columns_def
       conditions_hold_def column_value_def matches_def truthy_str_def Let_def
       intro!: arg_cong [where f = concat] map_cong)

lemma insights_rankings:
  assumes "get_trade_insights d user_id currency_pair timeframe strategy date_filter = Inr r"
  shows "ti_all_timeframes r = map group_stats_of
           (ranked_groups (timeframe_candidates d currency_pair strategy))"
    and "ti_best_timeframe r = best_of (ti_all_timeframes r)"
    and "ti_all_strategies r = map group_stats_of
           (ranked_groups (strategy_candidates d currency_pair timeframe))"
    and "ti_best_strategy r = best_of (ti_all_strategies r)"
    and "ti_top_5_timeframe_strategy_combos r = map group_stats_of
           (take 5 (ranked_groups (combined_candidates d currency_pair)))"
proof -
  obtain filters params where bf: "build_filters currency_pair timeframe strategy = (filters, params)"
    by (cases "build_filters currency_pair timeframe strategy") auto
  have tf: "timeframe_query d filters params = ranked_groups (timeframe_candidates d currency_pair strategy)"
    using timeframe_rows_candidates [of d currency_pair timeframe strategy]
    by (simp add: bf timeframe_query_def)
  have st: "strategy_query d filters params = ranked_groups (strategy_candidates d currency_pair timeframe)"
    using strategy_rows_candidates [of d currency_pair timeframe strategy]
    by (simp add: bf strategy_query_def)
  have cb: "combined_query d filters params = take 5 (ranked_groups (combined_candidates d currency_pair))"
    using combined_rows_candidates [of d currency_pair timeframe strategy]
    by (simp add: bf combined_query_def)
  have loop: "stats_loop perf w pl = (stats, w', pl') \<Longrightarrow> stats = map group_stats_of perf"
    for perf :: "('k \<times> nat \<times> nat \<times> real) list" and w pl stats w' pl'
    using stats_loop_stats [of perf w pl] by simp
  from assms have
    "ti_all_timeframes r = map group_stats_of (timeframe_query d filters params)
     \<and> ti_best_timeframe r = best_of (ti_all_timeframes r)
     \<and> ti_all_strategies r = map group_stats_of (strategy_query d filters params)
     \<and> ti_best_strategy r = best_of (ti_all_strategies r)
     \<and> ti_top_5_timeframe_strategy_combos r = map group_stats_of (combined_query d filters params)"
    unfolding get_trade_insights_def bf Let_def
    by (auto split: prod.splits sum.splits if_splits dest!: loop)
  then show "ti_all_timeframes r = map group_stats_of
           (ranked_groups (timeframe_candidates d currency_pair strategy))"
    and "ti_best_timeframe r = best_of (ti_all_timeframes r)"
    and "ti_all_strategies r = map group_stats_of
           (ranked_groups (strategy_candidates d currency_pair timeframe))"
    and "ti_best_strategy r = best_of (ti_all_strategies r)"
    and "ti_top_5_timeframe_strategy_combos r = map group_stats_of
           (take 5 (ranked_groups (combined_candidates d currency_pair)))"
    by (simp_all add: tf st cb)
qed

lemma alice_only_store:
  "alice_only =
   \<lparr>users = [(''alice'', ''alice'')],
    trade_tracker =
      [\<lparr>tt_id = 1, tt_user_id = ''alice'', tt_entry_price = 2000,
        tt_take_profit = Some 1990, tt_stop_loss = Some 2005,
        tt_lot_size = 1 / 100, tt_balance = 500, tt_trade_type = SELL,
        tt_currency_pair = ''XAU/USD'', tt_timeframe = Some ''1h'',
        tt_trade_style = None, tt_strategy = Some ''smc'',
        tt_risk_reward_ratio = Some ''1:2.00'', tt_notes = None,
        tt_timestamp = 0, tt_status = CLOSED\<rparr>],
    trade_results =
      [\<lparr>tr_id = 1, tr_user_id = ''alice'', tr_trade_id = 1, tr_result = WIN,
        tr_profit_loss = 10, tr_notes = None, tr_timestamp = 0\<rparr>],
    risk_monitor = [], trade_seq = 1, result_seq = 1, clock = 0\<rparr>"
  by (simp add: alice_only_def save_trade_accepted log_trade_result_unfold fetch_trade_def
      exit_and_profit_loss_def truthy_def empty_db_def risk_reward_sell_example)

lemma alice_and_bob_store:
  "alice_and_bob =
   \<lparr>users = [(''alice'', ''alice''), (''bob'', ''bob'')],
    trade_tracker =
      [\<lparr>tt_id = 1, tt_user_id = ''alice'', tt_entry_price = 2000,
        tt_take_profit = Some 1990, tt_stop_loss = Some 2005,
        tt_lot_size = 1 / 100, tt_balance = 500, tt_trade_type = SELL,
        tt_currency_pair = ''XAU/USD'', tt_timeframe = Some ''1h'',
        tt_trade_style = None, tt_strategy = Some ''smc'',
        tt_risk_reward_ratio = Some ''1:2.00'', tt_notes = None,
        tt_timestamp = 0, tt_status = CLOSED\<rparr>,
       \<lparr>tt_id = 2, tt_user_id = ''bob'', tt_entry_price = 2000,
        tt_take_profit = Some 2010, tt_stop_loss = Some 1995,
        tt_lot_size = 3 / 100, tt_balance = 1000, tt_trade_type = BUY,
        tt_currency_pair = ''XAU/USD'', tt_timeframe = Some ''5m'',
        tt_trade_style = None, tt_strategy = Some ''breakout'',
        tt_risk_reward_ratio = Some ''1:2.00'', tt_notes = None,
        tt_timestamp = 0, tt_status = CLOSED\<rparr>],
    trade_results =
      [\<lparr>tr_id = 1, tr_user_id = ''alice'', tr_trade_id = 1, tr_result = WIN,
        tr_profit_loss = 10, tr_notes = None, tr_timestamp = 0\<rparr>,
       \<lparr>tr_id = 2, tr_user_id = ''bob'', tr_trade_id = 2, tr_result = LOSS,
        tr_profit_loss = - 15, tr_notes = None, tr_timestamp = 0\<rparr>],
    risk_monitor = [], trade_seq = 2, result_seq = 2, clock = 0\<rparr>"
  by (simp add: alice_and_bob_def alice_only_store save_trade_accepted log_trade_result_unfold
      fetch_trade_def exit_and_profit_loss_def truthy_def risk_reward_example)

lemma bob_only_store:
  "bob_only =
   \<lparr>users = [(''bob'', ''bob'')],
    trade_tracker =
      [\<lparr>tt_id = 1, tt_user_id = ''bob'', tt_entry_price = 2000,
        tt_take_profit = Some 2010, tt_stop_loss = Some 1995,
        tt_lot_size = 3 / 100, tt_balance = 1000, tt_trade_type = BUY,
        tt_currency_pair = ''XAU/USD'', tt_timeframe = None,
        tt_trade_style = None, tt_strategy = None,
        tt_risk_reward_ratio = Some ''1:2.00'', tt_notes = None,
        tt_timestamp = 0, tt_status = CLOSED\<rparr>],
    trade_results =
      [\<lparr>tr_id = 1, tr_user_id = ''bob'', tr_trade_id = 1, tr_result = WIN,
        tr_profit_loss = 30, tr_notes = None, tr_timestamp = 0\<rparr>],
    risk_monitor = [], trade_seq = 1, result_seq = 1, clock = 0\<rparr>"
  by (simp add: bob_only_def save_trade_accepted log_trade_result_unfold fetch_trade_def
      exit_and_profit_loss_def truthy_def empty_db_def risk_reward_example)

lemma one_loss_store:
  "one_loss =
   \<lparr>users = [(''u1'', ''u1'')],
    trade_tracker =
      [\<lparr>tt_id = 1, tt_user_id = ''u1'', tt_entry_price = 2000,
        tt_take_profit = Some 2010, tt_stop_loss = Some 1995,
        tt_lot_size = 3 / 100, tt_balance = 1000, tt_trade_type = BUY,
        tt_currency_pair = ''XAU/USD'', tt_timeframe = None,
        tt_trade_style = None, tt_strategy = None,
        tt_risk_reward_ratio = Some ''1:2.00'', tt_notes = None,
        tt_timestamp = 0, tt_status = CLOSED\<rparr>],
    trade_results =
      [\<lparr>tr_id = 1, tr_user_id = ''u1'', tr_trade_id = 1, tr_result = LOSS,
        tr_profit_loss = - 15, tr_notes = None, tr_timestamp = 0\<rparr>],
    risk_monitor = [], trade_seq = 1, result_seq = 1, clock = 0\<rparr>"
  by (simp add: one_loss_def save_trade_accepted log_trade_result_unfold fetch_trade_def
      exit_and_profit_loss_def truthy_def empty_db_def risk_reward_example)

lemma insights_alice_and_bob:
  "get_trade_insights alice_and_bob ''alice'' None None None None =
   Inr \<lparr>ti_total_trades = 2, ti_open_trades = Some 0,
        ti_closed_trades = Some 2, ti_total_profit_loss = - 15,
        ti_win_rate = 100, ti_wins = 0, ti_losses = 0,
        ti_average_profit_per_win = 10, ti_average_loss_per_loss = 0,
        ti_profit_factor = None, ti_best_side = ''SELL'',
        ti_buy_stats = \<lparr>ss_total = 1, ss_wins = 0, ss_win_rate = 0, ss_total_pl = - 15\<rparr>,
        ti_sell_stats = \<lparr>ss_total = 1, ss_wins = 1, ss_win_rate = 100, ss_total_pl = 10\<rparr>,
        ti_average_lot_size_wins = 1 / 100, ti_average_lot_size_losses = 0,
        ti_lot_size_difference = 1 / 100, ti_best_timeframe = Some ''1h'',
        ti_all_timeframes =
          [\<lparr>gs_key = ''1h'', gs_total_trades = 1, gs_wins = 1, gs_win_rate = 100, gs_total_pl = 10\<rparr>,
           \<lparr>gs_key = ''5m'', gs_total_trades = 1, gs_wins = 0, gs_win_rate = 0, gs_total_pl = - 15\<rparr>],
        ti_best_strategy = Some ''smc'',
        ti_all_strategies =
          [\<lparr>gs_key = ''smc'', gs_total_trades = 1, gs_wins = 1, gs_win_rate = 100, gs_total_pl = 10\<rparr>,
           \<lparr>gs_key = ''breakout'', gs_total_trades = 1, gs_wins = 0, gs_win_rate = 0, gs_total_pl = - 15\<rparr>],
        ti_average_rr_winning_trades = Some 2,
        ti_average_rr_losing_trades = Some 2,
        ti_top_5_timeframe_strategy_combos =
          [\<lparr>gs_key = (''1h'', ''smc''), gs_total_trades = 1, gs_wins = 1, gs_win_rate = 100, gs_total_pl = 10\<rparr>,
           \<lparr>gs_key = (''5m'', ''breakout''), gs_total_trades = 1, gs_wins = 0, gs_win_rate = 0,
             gs_total_pl = - 15\<rparr>]\<rparr>"
  unfolding alice_and_bob_store by code_simp

lemma insights_alice_only:
  "get_trade_insights alice_only ''alice'' None None None None =
   Inr \<lparr>ti_total_trades = 1, ti_open_trades = Some 0,
        ti_closed_trades = Some 1, ti_total_profit_loss = 10,
        ti_win_rate = 100, ti_wins = 1, ti_losses = 0,
        ti_average_profit_per_win = 10, ti_average_loss_per_loss = 0,
        ti_profit_factor = None, ti_best_side = ''SELL'',
        ti_buy_stats = \<lparr>ss_total = 0, ss_wins = 0, ss_win_rate = 0, ss_total_pl = 0\<rparr>,
        ti_sell_stats = \<lparr>ss_total = 1, ss_wins = 1, ss_win_rate = 100, ss_total_pl = 10\<rparr>,
        ti_average_lot_size_wins = 1 / 100, ti_average_lot_size_losses = 0,
        ti_lot_size_difference = 1 / 100, ti_best_timeframe = Some ''1h'',
        ti_all_timeframes =
          [\<lparr>gs_key = ''1h'', gs_total_trades = 1, gs_wins = 1, gs_win_rate = 100, gs_total_pl = 10\<rparr>],
        ti_best_strategy = Some ''smc'',
        ti_all_strategies =
          [\<lparr>gs_key = ''smc'', gs_total_trades = 1, gs_wins = 1, gs_win_rate = 100, gs_total_pl = 10\<rparr>],
        ti_average_rr_winning_trades = Some 2,
        ti_average_rr_losing_trades = None,
        ti_top_5_timeframe_strategy_combos =
          [\<lparr>gs_key = (''1h'', ''smc''), gs_total_trades = 1, gs_wins = 1, gs_win_rate = 100,
             gs_total_pl = 10\<rparr>]\<rparr>"
  unfolding alice_only_store by code_simp

lemma insights_bob_only:
  "get_trade_insights bob_only ''alice'' None None None None =
   Inr \<lparr>ti_total_trades = 1, ti_open_trades = Some 0,
        ti_closed_trades = Some 1, ti_total_profit_loss = 30,
        ti_win_rate = 0, ti_wins = 1, ti_losses = 0,
        ti_average_profit_per_win = 0, ti_average_loss_per_loss = 0,
        ti_profit_factor = None, ti_best_side = ''BUY'',
        ti_buy_stats = \<lparr>ss_total = 1, ss_wins = 1, ss_win_rate = 100, ss_total_pl = 30\<rparr>,
        ti_sell_stats = \<lparr>ss_total = 0, ss_wins = 0, ss_win_rate = 0, ss_total_pl = 0\<rparr>,
        ti_average_lot_size_wins = 0, ti_average_lot_size_losses = 0,
        ti_lot_size_difference = 0, ti_best_timeframe = None,
        ti_all_timeframes = [], ti_best_strategy = None,
        ti_all_strategies = [], ti_average_rr_winning_trades = Some 2,
        ti_average_rr_losing_trades = None,
        ti_top_5_timeframe_strategy_combos = []\<rparr>"
  unfolding bob_only_store by code_simp

lemma insights_type_error: "get_trade_insights one_loss ''u1'' None None None None = Inl TypeError"
  unfolding one_loss_store by code_simp

lemma insights_binding_error:
  "get_trade_insights (empty_db 0) ''smc'' None None (Some ''smc'') None = Inl ProgrammingError"
  by code_simp

lemma alice_rows_agree:
  "filter (\<lambda>t. tt_user_id t = ''alice'') (trade_tracker alice_and_bob)
     = filter (\<lambda>t. tt_user_id t = ''alice'') (trade_tracker alice_only)
   \<and> filter (\<lambda>r. tr_user_id r = ''alice'') (trade_results alice_and_bob)
     = filter (\<lambda>r. tr_user_id r = ''alice'') (trade_results alice_only)"
  by (simp add: alice_and_bob_store alice_only_store)

lemma build_filters_lengths:
  "length (fst (build_filters currency_pair timeframe strategy))
     = length (snd (build_filters currency_pair timeframe strategy))"
  by (simp add: build_filters_def Let_def)

lemma user_rows_bound:
  assumes "length filters = length params" and "user_id \<notin> set params"
  shows "user_rows d user_id filters params =
           Inr (filter (\<lambda>(tt, tr). tt_user_id tt = user_id \<and> conditions_hold filters params tt)
                  (closed_with_result d))"
proof -
  have "filter (\<lambda>p. p \<noteq> user_id) params = params"
    using assms(2) by (induction params) auto
  then show ?thesis using assms(1) by (simp add: user_rows_def bind_parameters_def)
qed

lemma sql_avg_None: "sql_avg xs = None \<longleftrightarrow> xs = []"
  by (simp add: sql_avg_def)

lemma get_trade_insights_answers:
  assumes "user_id \<notin> set (snd (build_filters currency_pair timeframe strategy))"
    and "rows = filter (\<lambda>(tt, tr). tt_user_id tt = user_id
                 \<and> conditions_hold (fst (build_filters currency_pair timeframe strategy))
                       (snd (build_filters currency_pair timeframe strategy)) tt)
               (closed_with_result d)"
    and "count_result WIN rows \<noteq> 0 \<or> count_result LOSS rows = 0"
  shows "\<exists>r. get_trade_insights d user_id currency_pair timeframe strategy date_filter = Inr r"
proof -
  obtain filters params where bf: "build_filters currency_pair timeframe strategy = (filters, params)"
    by (cases "build_filters currency_pair timeframe strategy") auto
  have len: "length filters = length params"
    using build_filters_lengths [of currency_pair timeframe strategy] by (simp add: bf)
  have ur: "user_rows d user_id filters params = Inr rows"
    using user_rows_bound [OF len, of user_id d] assms(1,2) by (simp add: bf)
  have wins: "[tr_profit_loss tr. (tt, tr) \<leftarrow> rows, tr_result tr = WIN] = [] \<longleftrightarrow> count_result WIN rows = 0"
    by (induction rows) (auto simp: count_result_def)
  have losses: "[tr_profit_loss tr. (tt, tr) \<leftarrow> rows, tr_result tr = LOSS] = [] \<longleftrightarrow> count_result LOSS rows = 0"
    by (induction rows) (auto simp: count_result_def)
  have ok: "\<not> (truthy (sql_avg [tr_profit_loss tr. (tt, tr) \<leftarrow> rows, tr_result tr = LOSS])
            \<and> sql_avg [tr_profit_loss tr. (tt, tr) \<leftarrow> rows, tr_result tr = WIN] = None)"
    using assms(3) wins losses by (auto simp: sql_avg_None truthy_def sql_avg_def)
  show ?thesis
    using ok
    unfolding get_trade_insights_def bf Let_def
    by (auto simp: performance_query_def lot_size_query_def ur truthy_def
        split: prod.splits sum.splits if_splits)
qed

text \<open>
  C9: whenever \<open>get_trade_insights\<close> answers, its timeframe list, its strategy list and
  its combination list are rankings in the sense above: closed trades with a result are
  grouped by the dimension (timeframe set; strategy set and not empty; both for the
  combinations), the groups are ordered by win rate, highest first, ties by total profit
  or loss, highest first, the best timeframe and the best strategy are the keys of the
  first groups, and the combination list is the first five groups of its ranking, so at
  most five.  The rows are those of all users that pass the filters on the other
  dimensions.  The tool answers (\<open>get_trade_insights_answers\<close>) whenever no filter value
  equals the user identifier and the user's closed trades under the filters include a win
  or no loss.
\<close>

theorem rankings_by_dimension:
  "get_trade_insights d user_id currency_pair timeframe strategy date_filter = Inr r \<Longrightarrow>
     (\<exists>rank. ranking_of (timeframe_candidates d currency_pair strategy) rank
          \<and> ti_all_timeframes r = map group_stats_of rank
          \<and> ti_best_timeframe r = (case rank of [] \<Rightarrow> None | g # _ \<Rightarrow> Some (fst g)))
     \<and> (\<exists>rank. ranking_of (strategy_candidates d currency_pair timeframe) rank
          \<and> ti_all_strategies r = map group_stats_of rank
          \<and> ti_best_strategy r = (case rank of [] \<Rightarrow> None | g # _ \<Rightarrow> Some (fst g)))
     \<and> (\<exists>rank. ranking_of (combined_candidates d currency_pair) rank
          \<and> ti_top_5_timeframe_strategy_combos r = map group_stats_of (take 5 rank))
     \<and> length (ti_top_5_timeframe_strategy_combos r) \<le> 5"
proof -
  assume a: "get_trade_insights d user_id currency_pair timeframe strategy date_filter = Inr r"
  note rk = insights_rankings [OF a]
  have 1: "\<exists>rank. ranking_of (timeframe_candidates d currency_pair strategy) rank
          \<and> ti_all_timeframes r = map group_stats_of rank
          \<and> ti_best_timeframe r = (case rank of [] \<Rightarrow> None | g # _ \<Rightarrow> Some (fst g))"
    using ranked_groups_ranking [of "timeframe_candidates d currency_pair strategy"] rk(1,2)
    by (intro exI [of _ "ranked_groups (timeframe_candidates d currency_pair strategy)"])
       (simp add: best_of_ranking)
  have 2: "\<exists>rank. ranking_of (strategy_candidates d currency_pair timeframe) rank
          \<and> ti_all_strategies r = map group_stats_of rank
          \<and> ti_best_strategy r = (case rank of [] \<Rightarrow> None | g # _ \<Rightarrow> Some (fst g))"
    using ranked_groups_ranking [of "strategy_candidates d currency_pair timeframe"] rk(3,4)
    by (intro exI [of _ "ranked_groups (strategy_candidates d currency_pair timeframe)"])
       (simp add: best_of_ranking)
  have 3: "\<exists>rank. ranking_of (combined_candidates d currency_pair) rank
          \<and> ti_top_5_timeframe_strategy_combos r = map group_stats_of (take 5 rank)"
    using ranked_groups_ranking [of "combined_candidates d currency_pair"] rk(5)
    by (intro exI [of _ "ranked_groups (combined_candidates d currency_pair)"]) simp
  have 4: "length (ti_top_5_timeframe_strategy_combos r) \<le> 5"
    by (simp add: rk(5))
  from 1 2 3 4 show ?thesis by blast
qed

theorem rankings_by_dimension_witness:
  "(let r = \<lparr>ti_total_trades = 2, ti_open_trades = Some 0,
        ti_closed_trades = Some 2, ti_total_profit_loss = - 15,
        ti_win_rate = 100, ti_wins = 0, ti_losses = 0,
        ti_average_profit_per_win = 10, ti_average_loss_per_loss = 0,
        ti_profit_factor = None, ti_best_side = ''SELL'',
        ti_buy_stats = \<lparr>ss_total = 1, ss_wins = 0, ss_win_rate = 0, ss_total_pl = - 15\<rparr>,
        ti_sell_stats = \<lparr>ss_total = 1, ss_wins = 1, ss_win_rate = 100, ss_total_pl = 10\<rparr>,
        ti_average_lot_size_wins = 1 / 100, ti_average_lot_size_losses = 0,
        ti_lot_size_difference = 1 / 100, ti_best_timeframe = Some ''1h'',
        ti_all_timeframes =
          [\<lparr>gs_key = ''1h'', gs_total_trades = 1, gs_wins = 1, gs_win_rate = 100, gs_total_pl = 10\<rparr>,
           \<lparr>gs_key = ''5m'', gs_total_trades = 1, gs_wins = 0, gs_win_rate = 0, gs_total_pl = - 15\<rparr>],
        ti_best_strategy = Some ''smc'',
        ti_all_strategies =
          [\<lparr>gs_key = ''smc'', gs_total_trades = 1, gs_wins = 1, gs_win_rate = 100, gs_total_pl = 10\<rparr>,
           \<lparr>gs_key = ''breakout'', gs_total_trades = 1, gs_wins = 0, gs_win_rate = 0, gs_total_pl = - 15\<rparr>],
        ti_average_rr_winning_trades = Some 2,
        ti_average_rr_losing_trades = Some 2,
        ti_top_5_timeframe_strategy_combos =
          [\<lparr>gs_key = (''1h'', ''smc''), gs_total_trades = 1, gs_wins = 1, gs_win_rate = 100, gs_total_pl = 10\<rparr>,
           \<lparr>gs_key = (''5m'', ''breakout''), gs_total_trades = 1, gs_wins = 0, gs_win_rate = 0,
             gs_total_pl = - 15\<rparr>]\<rparr>
    in get_trade_insights alice_and_bob ''alice'' None None None None = Inr r \<and>
       ((\<exists>rank. ranking_of (timeframe_candidates alice_and_bob None None) rank
          \<and> ti_all_timeframes r = map group_stats_of rank
          \<and> ti_best_timeframe r = (case rank of [] \<Rightarrow> None | g # _ \<Rightarrow> Some (fst g)))
        \<and> (\<exists>rank. ranking_of (strategy_candidates alice_and_bob None None) rank
          \<and> ti_all_strategies r = map group_stats_of rank
          \<and> ti_best_strategy r = (case rank of [] \<Rightarrow> None | g # _ \<Rightarrow> Some (fst g)))
        \<and> (\<exists>rank. ranking_of (combined_candidates alice_and_bob None) rank
          \<and> ti_top_5_timeframe_strategy_combos r = map group_stats_of (take 5 rank))
        \<and> length (ti_top_5_timeframe_strategy_combos r) \<le> 5))"
  unfolding Let_def
  by (rule conjI [OF insights_alice_and_bob rankings_by_dimension [OF insights_alice_and_bob]])

text \<open>
  C2: the claim asks that the answer for a user be the same in two stores that differ only
  in rows of other users.  \<open>alice_only\<close> and \<open>alice_and_bob\<close> hold the same trades and
  results of alice; the second also holds a trade of bob with its result.  The answers
  for alice differ: the trade counts, the total profit or loss, the wins, the side
  comparison, the timeframe, strategy and combination rankings and the risk:reward
  averages of the second answer take in the rows of bob.  Only the win-rate, average and
  lot-size figures of queries 2 and 4 are hers alone.
\<close>

theorem insights_depend_on_other_users:
  "filter (\<lambda>t. tt_user_id t = ''alice'') (trade_tracker alice_and_bob)
     = filter (\<lambda>t. tt_user_id t = ''alice'') (trade_tracker alice_only)
   \<and> filter (\<lambda>r. tr_user_id r = ''alice'') (trade_results alice_and_bob)
     = filter (\<lambda>r. tr_user_id r = ''alice'') (trade_results alice_only)
   \<and> get_trade_insights alice_only ''alice'' None None None None =
     Inr \<lparr>ti_total_trades = 1, ti_open_trades = Some 0,
        ti_closed_trades = Some 1, ti_total_profit_loss = 10,
        ti_win_rate = 100, ti_wins = 1, ti_losses = 0,
        ti_average_profit_per_win = 10, ti_average_loss_per_loss = 0,
        ti_profit_factor = None, ti_best_side = ''SELL'',
        ti_buy_stats = \<lparr>ss_total = 0, ss_wins = 0, ss_win_rate = 0, ss_total_pl = 0\<rparr>,
        ti_sell_stats = \<lparr>ss_total = 1, ss_wins = 1, ss_win_rate = 100, ss_total_pl = 10\<rparr>,
        ti_average_lot_size_wins = 1 / 100, ti_average_lot_size_losses = 0,
        ti_lot_size_difference = 1 / 100, ti_best_timeframe = Some ''1h'',
        ti_all_timeframes =
          [\<lparr>gs_key = ''1h'', gs_total_trades = 1, gs_wins = 1, gs_win_rate = 100, gs_total_pl = 10\<rparr>],
        ti_best_strategy = Some ''smc'',
        ti_all_strategies =
          [\<lparr>gs_key = ''smc'', gs_total_trades = 1, gs_wins = 1, gs_win_rate = 100, gs_total_pl = 10\<rparr>],
        ti_average_rr_winning_trades = Some 2,
        ti_average_rr_losing_trades = None,
        ti_top_5_timeframe_strategy_combos =
          [\<lparr>gs_key = (''1h'', ''smc''), gs_total_trades = 1, gs_wins = 1, gs_win_rate = 100,
             gs_total_pl = 10\<rparr>]\<rparr>
   \<and> get_trade_insights alice_and_bob ''alice'' None None None None =
     Inr \<lparr>ti_total_trades = 2, ti_open_trades = Some 0,
        ti_closed_trades = Some 2, ti_total_profit_loss = - 15,
        ti_win_rate = 100, ti_wins = 0, ti_losses = 0,
        ti_average_profit_per_win = 10, ti_average_loss_per_loss = 0,
        ti_profit_factor = None, ti_best_side = ''SELL'',
        ti_buy_stats = \<lparr>ss_total = 1, ss_wins = 0, ss_win_rate = 0, ss_total_pl = - 15\<rparr>,
        ti_sell_stats = \<lparr>ss_total = 1, ss_wins = 1, ss_win_rate = 100, ss_total_pl = 10\<rparr>,
        ti_average_lot_size_wins = 1 / 100, ti_average_lot_size_losses = 0,
        ti_lot_size_difference = 1 / 100, ti_best_timeframe = Some ''1h'',
        ti_all_timeframes =
          [\<lparr>gs_key = ''1h'', gs_total_trades = 1, gs_wins = 1, gs_win_rate = 100, gs_total_pl = 10\<rparr>,
           \<lparr>gs_key = ''5m'', gs_total_trades = 1, gs_wins = 0, gs_win_rate = 0, gs_total_pl = - 15\<rparr>],
        ti_best_strategy = Some ''smc'',
        ti_all_strategies =
          [\<lparr>gs_key = ''smc'', gs_total_trades = 1, gs_wins = 1, gs_win_rate = 100, gs_total_pl = 10\<rparr>,
           \<lparr>gs_key = ''breakout'', gs_total_trades = 1, gs_wins = 0, gs_win_rate = 0, gs_total_pl = - 15\<rparr>],
        ti_average_rr_winning_trades = Some 2,
        ti_average_rr_losing_trades = Some 2,
        ti_top_5_timeframe_strategy_combos =
          [\<lparr>gs_key = (''1h'', ''smc''), gs_total_trades = 1, gs_wins = 1, gs_win_rate = 100, gs_total_pl = 10\<rparr>,
           \<lparr>gs_key = (''5m'', ''breakout''), gs_total_trades = 1, gs_wins = 0, gs_win_rate = 0,
             gs_total_pl = - 15\<rparr>]\<rparr>"
  using alice_rows_agree insights_alice_only insights_alice_and_bob by (intro conjI) simp_all

text \<open>
  C8: the claim asks that a user without closed trades with a result get a win rate of 0
  and a total profit or loss of 0, and that no call raise.  In \<open>bob_only\<close> alice has no
  trade at all, yet her total profit or loss is 30 and her wins are 1: the loops over the
  side groups run over the rows of every user and leave their last row in the variables
  the summary is built from.  A call whose strategy filter equals the user identifier
  raises \<open>ProgrammingError\<close> on any store, and a user whose closed trades are all losses
  gets \<open>TypeError\<close> from the profit factor.
\<close>

theorem insights_without_own_trades:
  "filter (\<lambda>t. tt_user_id t = ''alice'') (trade_tracker bob_only) = []
   \<and> get_trade_insights bob_only ''alice'' None None None None =
     Inr \<lparr>ti_total_trades = 1, ti_open_trades = Some 0,
        ti_closed_trades = Some 1, ti_total_profit_loss = 30,
        ti_win_rate = 0, ti_wins = 1, ti_losses = 0,
        ti_average_profit_per_win = 0, ti_average_loss_per_loss = 0,
        ti_profit_factor = None, ti_best_side = ''BUY'',
        ti_buy_stats = \<lparr>ss_total = 1, ss_wins = 1, ss_win_rate = 100, ss_total_pl = 30\<rparr>,
        ti_sell_stats = \<lparr>ss_total = 0, ss_wins = 0, ss_win_rate = 0, ss_total_pl = 0\<rparr>,
        ti_average_lot_size_wins = 0, ti_average_lot_size_losses = 0,
        ti_lot_size_difference = 0, ti_best_timeframe = None,
        ti_all_timeframes = [], ti_best_strategy = None,
        ti_all_strategies = [], ti_average_rr_winning_trades = Some 2,
        ti_average_rr_losing_trades = None,
        ti_top_5_timeframe_strategy_combos = []\<rparr>
   \<and> get_trade_insights (empty_db 0) ''smc'' None None (Some ''smc'') None = Inl ProgrammingError
   \<and> get_trade_insights one_loss ''u1'' None None None None = Inl TypeError"
proof -
  have "filter (\<lambda>t. tt_user_id t = ''alice'') (trade_tracker bob_only) = []"
    by (simp add: bob_only_store)
  then show ?thesis
    using insights_bob_only insights_binding_error insights_type_error by (intro conjI) simp_all
qed

subsection \<open>check_risk_alerts\<close>

lemma open_trades_query_unbound: "open_trades_query d [] = Inl ProgrammingError"
  by (simp add: open_trades_query_def bind_parameters_def)

lemma check_risk_alerts_raises:
  "check_risk_alerts d user_id recent_trades_count consecutive_loss_threshold
     max_trades_per_hour max_risk_per_trade_percent drawdown_threshold_percent
   = (Inl ProgrammingError, d)"
  by (simp add: check_risk_alerts_def check_risk_alerts_conn_def open_trades_query_unbound
      recent_trades_query_def bind_parameters_def)

text \<open>
  C1: the claim asks for the empty report when the user has no trades.  The query for the
  open trades has one placeholder and is executed without values, so the call raises
  \<open>ProgrammingError\<close> before it looks at its rows: on the empty store with the default
  thresholds, and (\<open>check_risk_alerts_raises\<close>) on every store with any arguments.
\<close>

theorem check_risk_alerts_no_trades:
  "check_risk_alerts (empty_db 0) ''u1'' 10 3 5 2 10 = (Inl ProgrammingError, empty_db 0)"
  by (simp add: check_risk_alerts_def check_risk_alerts_conn_def open_trades_query_def
      recent_trades_query_def bind_parameters_def)

end
